theory Spec2Isabelle
  imports Complex_Main
begin

section \<open>JavaScript values used by the client\<close>

text \<open>
  A JavaScript number as the client code compares it: the handlers only test
  \<open>x <= 0\<close>, so a number is a finite value, one of the two infinities, or
  \<open>NaN\<close>.  Rounding of finite values plays no part in the code modelled here
  and finite values are kept exact.
\<close>

datatype jsnum = NaN | NegInf | Fin rat | PosInf

text \<open>The relational operator \<open><=\<close>: every comparison with \<open>NaN\<close> is false.\<close>

fun js_le :: "jsnum \<Rightarrow> jsnum \<Rightarrow> bool" where
  "js_le NaN _ = False"
| "js_le _ NaN = False"
| "js_le NegInf _ = True"
| "js_le _ PosInf = True"
| "js_le (Fin a) (Fin b) = (a \<le> b)"
| "js_le (Fin a) NegInf = False"
| "js_le PosInf _ = False"

text \<open>The operator \<open>>\<close>, again false whenever an operand is \<open>NaN\<close>.\<close>

fun js_gt :: "jsnum \<Rightarrow> jsnum \<Rightarrow> bool" where
  "js_gt NaN _ = False"
| "js_gt _ NaN = False"
| "js_gt PosInf PosInf = False"
| "js_gt PosInf _ = True"
| "js_gt _ PosInf = False"
| "js_gt NegInf _ = False"
| "js_gt (Fin a) NegInf = True"
| "js_gt (Fin a) (Fin b) = (a > b)"

text \<open>
  The result of an awaited promise: it is rejected with an error message (the
  \<open>await\<close> throws) or fulfilled with a value.
\<close>

datatype 'a outcome = Rejected string | Fulfilled 'a

text \<open>\<open>a || b\<close> on an optional string: \<open>undefined\<close> and the empty string are falsy.\<close>

fun or_default :: "string option \<Rightarrow> string \<Rightarrow> string" where
  "or_default None d = d"
| "or_default (Some s) d = (if s = [] then d else s)"

section \<open>The HTTP client (\<open>lib/api.ts\<close>)\<close>

definition API_BASE_URL :: string where
  "API_BASE_URL = ''/api''"

text \<open>
  \<open>Number.prototype.toString\<close> on the arguments of the history queries (a
  result limit and a number of days), for the whole numbers of magnitude below
  \<open>1e21\<close>, which JavaScript prints as decimal numerals.  Fractions and
  larger numbers, which it prints differently, are outside this model.
\<close>

definition digit_char :: "nat \<Rightarrow> char" where
  "digit_char n = ''0123456789ABCDEF'' ! (n mod 16)"

fun digits :: "nat \<Rightarrow> string" where
  "digits n = (if n < 10 then [digit_char n]
               else digits (n div 10) @ [digit_char (n mod 10)])"

definition toString :: "int \<Rightarrow> string" where
  "toString i = (if i < 0 then CHR ''-'' # digits (nat (- i)) else digits (nat i))"

text \<open>
  \<open>URLSearchParams\<close>: an ordered list of name/value pairs; \<open>append\<close> adds at
  the end and \<open>toString\<close> serialises in the form-urlencoded format (letters,
  digits and \<open>*-._\<close> are kept, a space becomes \<open>+\<close>, every other byte is
  percent-encoded).
\<close>

type_synonym URLSearchParams = "(string \<times> string) list"

definition append :: "URLSearchParams \<Rightarrow> string \<Rightarrow> string \<Rightarrow> URLSearchParams" where
  "append params k v = params @ [(k, v)]"

definition unreserved :: "char \<Rightarrow> bool" where
  "unreserved c = (let n = (of_char c :: nat) in
     (48 \<le> n \<and> n \<le> 57) \<or> (65 \<le> n \<and> n \<le> 90) \<or> (97 \<le> n \<and> n \<le> 122)
     \<or> c = CHR ''*'' \<or> c = CHR ''-'' \<or> c = CHR ''.'' \<or> c = CHR ''_'')"

definition encode_byte :: "char \<Rightarrow> string" where
  "encode_byte c =
     (if unreserved c then [c]
      else if c = CHR '' '' then ''+''
      else [CHR ''%'', digit_char ((of_char c :: nat) div 16), digit_char ((of_char c :: nat) mod 16)])"

definition urlencode :: "string \<Rightarrow> string" where
  "urlencode s = concat (map encode_byte s)"

fun join_amp :: "string list \<Rightarrow> string" where
  "join_amp [] = []"
| "join_amp [x] = x"
| "join_amp (x # y # ys) = x @ ''&'' @ join_amp (y # ys)"

definition params_toString :: "URLSearchParams \<Rightarrow> string" where
  "params_toString params =
     join_amp (map (\<lambda>(k, v). urlencode k @ ''='' @ urlencode v) params)"

text \<open>
  \<open>getOKXOrderHistory(symbol?, limit = 100, days = 7)\<close> and
  \<open>getOKXTrades(symbol?, limit = 100, days = 7)\<close>.  An argument that is left out
  is \<open>None\<close> and takes its default; \<open>if (symbol)\<close> also skips the empty string.
  The functions return the URL that \<open>apiRequest\<close> fetches.
\<close>

definition history_params :: "string option \<Rightarrow> int option \<Rightarrow> int option \<Rightarrow> URLSearchParams" where
  "history_params symbol limit_arg days_arg =
     (let limit = (case limit_arg of None \<Rightarrow> 100 | Some l \<Rightarrow> l);
          days = (case days_arg of None \<Rightarrow> 7 | Some d \<Rightarrow> d);
          params = [];
          params = (case symbol of None \<Rightarrow> params
                    | Some s \<Rightarrow> if s = [] then params else append params ''symbol'' s);
          params = append params ''limit'' (toString limit);
          params = append params ''days'' (toString days)
      in params)"

definition getOKXOrderHistory :: "string option \<Rightarrow> int option \<Rightarrow> int option \<Rightarrow> string" where
  "getOKXOrderHistory symbol limit_arg days_arg =
     API_BASE_URL @ ''/okx-account/orders/history?''
       @ params_toString (history_params symbol limit_arg days_arg)"

definition getOKXTrades :: "string option \<Rightarrow> int option \<Rightarrow> int option \<Rightarrow> string" where
  "getOKXTrades symbol limit_arg days_arg =
     API_BASE_URL @ ''/okx-account/trades?''
       @ params_toString (history_params symbol limit_arg days_arg)"


subsection \<open>Order placement request\<close>

datatype side = Buy | Sell
datatype order_type = Market | Limit
datatype pos_side = Long | Short

fun side_str :: "side \<Rightarrow> string" where
  "side_str Buy = ''buy''"
| "side_str Sell = ''sell''"

fun side_toUpperCase :: "side \<Rightarrow> string" where
  "side_toUpperCase Buy = ''BUY''"
| "side_toUpperCase Sell = ''SELL''"

fun order_type_str :: "order_type \<Rightarrow> string" where
  "order_type_str Market = ''market''"
| "order_type_str Limit = ''limit''"

text \<open>
  \<open>PlaceOKXOrderRequest\<close>.  The optional \<open>price\<close> is \<open>None\<close> when the caller
  passes \<open>undefined\<close>.  The field \<open>posSide\<close> is not part of the interface in
  \<open>lib/api.ts\<close>; the later copy of the trading view passes it, so it is optional.
\<close>

record PlaceOKXOrderRequest =
  symbol :: string
  side :: side
  quantity :: jsnum
  orderType :: order_type
  price :: "jsnum option"
  posSide :: "pos_side option"

text \<open>JSON values, as far as the request body needs them.\<close>

datatype json = JNull | JString string | JNumber rat

text \<open>\<open>JSON.stringify\<close> writes a non-finite number as \<open>null\<close>.\<close>

fun json_of_num :: "jsnum \<Rightarrow> json" where
  "json_of_num (Fin q) = JNumber q"
| "json_of_num _ = JNull"

text \<open>
  The body \<open>JSON.stringify(backendRequest)\<close> of \<open>placeOKXOrder\<close>: the members in
  the order the object literal lists them; a member whose value is \<open>undefined\<close>
  is left out.
\<close>

definition backendRequest :: "PlaceOKXOrderRequest \<Rightarrow> (string \<times> json) list" where
  "backendRequest orderRequest =
     [(''symbol'', JString (symbol orderRequest)),
      (''side'', JString (side_str (side orderRequest))),
      (''quantity'', json_of_num (quantity orderRequest)),
      (''order_type'', JString (order_type_str (orderType orderRequest)))]
     @ (case price orderRequest of None \<Rightarrow> [] | Some p \<Rightarrow> [(''price'', json_of_num p)])"

datatype http_request = GET string | POST string "(string \<times> json) list"

definition placeOKXOrder :: "PlaceOKXOrderRequest \<Rightarrow> http_request" where
  "placeOKXOrder orderRequest =
     POST (API_BASE_URL @ ''/okx-account/order'') (backendRequest orderRequest)"

text \<open>
  The requests that a sequence of \<open>placeOKXOrder\<close> calls puts on the network,
  added to those already sent.  The function keeps no record of earlier calls.
\<close>

fun place_all :: "http_request list \<Rightarrow> PlaceOKXOrderRequest list \<Rightarrow> http_request list" where
  "place_all sent [] = sent"
| "place_all sent (r # rs) = place_all (sent @ [placeOKXOrder r]) rs"

section \<open>Data shown by the account views\<close>

record OKXBalance =
  currency :: string
  total :: jsnum
  free :: jsnum
  used :: jsnum

record OKXPosition =
  pos_symbol :: string
  pos_side :: string
  contracts :: jsnum
  contractSize :: jsnum
  notional :: jsnum
  leverage :: jsnum
  unrealizedPnl :: jsnum
  percentage :: jsnum
  entryPrice :: jsnum
  markPrice :: jsnum
  liquidationPrice :: jsnum
  marginMode :: string
  pos_timestamp :: jsnum
  pos_datetime :: string

record OKXOrder =
  ord_id :: string
  clientOrderId :: "string option"
  ord_symbol :: string
  ord_type :: string
  ord_side :: string
  ord_price :: jsnum
  ord_amount :: jsnum
  filled :: jsnum
  remaining :: jsnum
  status :: string
  ord_timestamp :: jsnum
  ord_datetime :: string

record OKXTrade =
  trd_id :: string
  trd_order :: string
  trd_symbol :: string
  trd_type :: string
  trd_side :: string
  trd_price :: jsnum
  trd_amount :: jsnum
  cost :: jsnum
  trd_timestamp :: jsnum
  trd_datetime :: string

record OKXAccountSummary =
  total_balance_usdt :: jsnum
  positions_value :: jsnum
  unrealized_pnl :: jsnum
  positions_count :: jsnum
  open_orders_count :: jsnum
  free_usdt :: jsnum
  used_usdt :: jsnum

text \<open>
  A JSON response \<open>{ success, <payload> }\<close> of the account endpoints, and the
  response \<open>{ success, order_id?, error? }\<close> of the order endpoint.
\<close>

datatype 'a api_response = Resp (success: bool) (payload: 'a)

record place_result =
  placed :: bool
  order_id :: "string option"
  error :: "string option"

text \<open>
  What a handler does besides updating the component state, in program order:
  calls of the functions of \<open>lib/api.ts\<close> (with the account id where the caller
  passes one), a direct \<open>fetch\<close>, toasts, \<open>console.error\<close>, and the delayed
  refresh of the trading panel.  \<open>console.log\<close> is not recorded.
\<close>

datatype api_call =
    GetOKXAccountSummary "nat option"
  | GetOKXBalance "nat option"
  | GetOKXPositions "nat option"
  | GetOKXOpenOrders "nat option"
  | GetOKXOrderHistory "nat option"
  | GetOKXTrades "nat option"
  | PlaceOKXOrder "nat option" PlaceOKXOrderRequest

datatype effect =
    Api api_call
  | Fetch http_request
  | ToastError string
  | ToastSuccess string
  | ConsoleError string
  | SetTimeout_onRefresh nat

fun is_history_call :: "effect \<Rightarrow> bool" where
  "is_history_call (Api (GetOKXOrderHistory _)) = True"
| "is_history_call (Api (GetOKXTrades _)) = True"
| "is_history_call _ = False"

fun is_order_submission :: "effect \<Rightarrow> bool" where
  "is_order_submission (Api (PlaceOKXOrder _ _)) = True"
| "is_order_submission (Fetch (POST _ _)) = True"
| "is_order_submission _ = False"

fun is_network :: "effect \<Rightarrow> bool" where
  "is_network (Api _) = True"
| "is_network (Fetch _) = True"
| "is_network _ = False"


section \<open>The manual trading view (\<open>ManualTradingView\<close>)\<close>

text \<open>
  The component state: the data state shared with the account view first, then the
  trading form.  \<open>parseFloat\<close> is the ECMAScript built-in; its result on the
  text of a form field is a parameter of the handlers.
\<close>

record account_data =
  balance :: "OKXBalance list"
  positions :: "OKXPosition list"
  openOrders :: "OKXOrder list"
  orderHistory :: "OKXOrder list"
  trades :: "OKXTrade list"
  loading :: bool
  refreshing :: bool

record trading_view = account_data +
  form_symbol :: string
  form_side :: side
  form_posSide :: pos_side
  form_orderType :: order_type
  amount :: string
  form_price :: string
  isSubmitting :: bool

definition initial_trading_view :: trading_view where
  "initial_trading_view =
     \<lparr>balance = [], positions = [], openOrders = [], orderHistory = [], trades = [],
      loading = True, refreshing = False,
      form_symbol = ''BTC-USDT-SWAP'', form_side = Buy, form_posSide = Long,
      form_orderType = Market, amount = [], form_price = [], isSubmitting = False\<rparr>"

text \<open>
  The amount and the price of the form (and the quantity and the price of the
  trading panel) are written only by the \<open>onChange\<close> handler of an input
  element of type \<open>number\<close> and by the resets after a placed order.  The
  value of a number field is the empty string or a numeral, and \<open>parseFloat\<close>
  reads a numeral as a finite number.
\<close>

definition number_field :: "(string \<Rightarrow> jsnum) \<Rightarrow> string \<Rightarrow> bool" where
  "number_field parseFloat v =
     (v = [] \<or> (case parseFloat v of Fin _ \<Rightarrow> True | _ \<Rightarrow> False))"

text \<open>
  An \<open>async\<close> function runs up to its first \<open>await\<close> when it is called and
  finishes when the awaited promise settles.  Each fetch function is therefore
  given in two parts, what it starts and what it does with the outcome, and as
  the whole of both.

  \<open>fetchAllData\<close>: the three queries are started together; \<open>Promise.all\<close>
  rejects when one of them does, and then no section is stored.  The first
  argument is the account id passed to the queries (\<open>None\<close> in the copy of the
  view that passes none).
\<close>

definition fetchAllData_calls :: "nat option \<Rightarrow> effect list" where
  "fetchAllData_calls accountId =
     [Api (GetOKXBalance accountId), Api (GetOKXPositions accountId),
      Api (GetOKXOpenOrders accountId)]"

definition fetchAllData_settle ::
  "('z account_data_scheme) \<Rightarrow> OKXBalance list api_response outcome
     \<Rightarrow> OKXPosition list api_response outcome \<Rightarrow> OKXOrder list api_response outcome
     \<Rightarrow> ('z account_data_scheme) \<times> effect list" where
  "fetchAllData_settle st balanceRes positionsRes ordersRes =
     (case (balanceRes, positionsRes, ordersRes) of
        (Fulfilled b, Fulfilled p, Fulfilled os) \<Rightarrow>
          (let st = (if success b then st\<lparr>balance := payload b\<rparr> else st);
               st = (if success p then st\<lparr>positions := payload p\<rparr> else st);
               st = (if success os then st\<lparr>openOrders := payload os\<rparr> else st)
           in (st\<lparr>loading := False, refreshing := False\<rparr>, []))
      | _ \<Rightarrow>
          (st\<lparr>loading := False, refreshing := False\<rparr>,
           [ConsoleError ''Failed to fetch data:'',
            ToastError ''Failed to load account data'']))"

definition fetchAllData ::
  "nat option \<Rightarrow> ('z account_data_scheme) \<Rightarrow> OKXBalance list api_response outcome
     \<Rightarrow> OKXPosition list api_response outcome \<Rightarrow> OKXOrder list api_response outcome
     \<Rightarrow> ('z account_data_scheme) \<times> effect list" where
  "fetchAllData accountId st balanceRes positionsRes ordersRes =
     (let st = st\<lparr>refreshing := True\<rparr>;
          (st, evs) = fetchAllData_settle st balanceRes positionsRes ordersRes
      in (st, fetchAllData_calls accountId @ evs))"

text \<open>
  Lazy loading of the order history and of the trades, with the force flag.  The
  list whose length the guard tests is the one held by the closure of the render
  that created the function; it is the argument \<open>cached\<close>.  A handler that has
  just called \<open>setOrderHistory\<close> still sees the old list there.
\<close>

definition fetchOrderHistory_starts :: "bool \<Rightarrow> OKXOrder list \<Rightarrow> bool" where
  "fetchOrderHistory_starts forceRefresh cached = (\<not> (length cached > 0 \<and> \<not> forceRefresh))"

definition fetchOrderHistory_settle ::
  "trading_view \<Rightarrow> OKXOrder list api_response outcome \<Rightarrow> trading_view \<times> effect list" where
  "fetchOrderHistory_settle st res =
     (case res of
        Fulfilled r \<Rightarrow> ((if success r then st\<lparr>orderHistory := payload r\<rparr> else st), [])
      | Rejected _ \<Rightarrow>
          (st, [ConsoleError ''Failed to fetch order history:'',
                ToastError ''Failed to load order history'']))"

definition fetchOrderHistory ::
  "nat \<Rightarrow> bool \<Rightarrow> OKXOrder list \<Rightarrow> trading_view \<Rightarrow> OKXOrder list api_response outcome
     \<Rightarrow> trading_view \<times> effect list" where
  "fetchOrderHistory accountId forceRefresh cached st res =
     (if fetchOrderHistory_starts forceRefresh cached
      then (let (st, evs) = fetchOrderHistory_settle st res
            in (st, Api (GetOKXOrderHistory (Some accountId)) # evs))
      else (st, []))"

definition fetchTrades_starts :: "bool \<Rightarrow> OKXTrade list \<Rightarrow> bool" where
  "fetchTrades_starts forceRefresh cached = (\<not> (length cached > 0 \<and> \<not> forceRefresh))"

definition fetchTrades_settle ::
  "trading_view \<Rightarrow> OKXTrade list api_response outcome \<Rightarrow> trading_view \<times> effect list" where
  "fetchTrades_settle st res =
     (case res of
        Fulfilled r \<Rightarrow> ((if success r then st\<lparr>trades := payload r\<rparr> else st), [])
      | Rejected _ \<Rightarrow>
          (st, [ConsoleError ''Failed to fetch trades:'',
                ToastError ''Failed to load trade history'']))"

definition fetchTrades ::
  "nat \<Rightarrow> bool \<Rightarrow> OKXTrade list \<Rightarrow> trading_view \<Rightarrow> OKXTrade list api_response outcome
     \<Rightarrow> trading_view \<times> effect list" where
  "fetchTrades accountId forceRefresh cached st res =
     (if fetchTrades_starts forceRefresh cached
      then (let (st, evs) = fetchTrades_settle st res
            in (st, Api (GetOKXTrades (Some accountId)) # evs))
      else (st, []))"

text \<open>
  The \<open>onValueChange\<close> handler of the tabs; the history calls take no force flag,
  and the lists they test are those of the current render.
\<close>

definition onValueChange ::
  "nat \<Rightarrow> string \<Rightarrow> trading_view \<Rightarrow> OKXOrder list api_response outcome
     \<Rightarrow> OKXTrade list api_response outcome \<Rightarrow> trading_view \<times> effect list" where
  "onValueChange accountId v st historyRes tradesRes =
     (let (st', e1) = (if v = ''history''
                       then fetchOrderHistory accountId False (orderHistory st) st historyRes
                       else (st, []));
          (st', e2) = (if v = ''trades''
                       then fetchTrades accountId False (trades st) st' tradesRes
                       else (st', []))
      in (st', e1 @ e2))"

text \<open>
  \<open>handleSubmitOrder\<close> of the view that passes the account id and the position
  side.  After the two checks the order goes to \<open>placeOKXOrder\<close>; the third
  argument from the end is what the awaited call gives, the last three feed the
  \<open>fetchAllData\<close> that a successful placement starts.
\<close>

definition handleSubmitOrder ::
  "(string \<Rightarrow> jsnum) \<Rightarrow> nat \<Rightarrow> trading_view \<Rightarrow> place_result outcome
     \<Rightarrow> OKXBalance list api_response outcome \<Rightarrow> OKXPosition list api_response outcome
     \<Rightarrow> OKXOrder list api_response outcome \<Rightarrow> trading_view \<times> effect list" where
  "handleSubmitOrder parseFloat accountId st placeRes balanceRes positionsRes ordersRes =
     (if amount st = [] \<or> js_le (parseFloat (amount st)) (Fin 0)
      then (st, [ToastError ''Please enter a valid amount''])
      else if form_orderType st = Limit
                \<and> (form_price st = [] \<or> js_le (parseFloat (form_price st)) (Fin 0))
      then (st, [ToastError ''Please enter a valid price for limit order''])
      else
        (let st = st\<lparr>isSubmitting := True\<rparr>;
             call = Api (PlaceOKXOrder (Some accountId)
                      \<lparr>symbol = form_symbol st, side = form_side st,
                       quantity = parseFloat (amount st),
                       orderType = form_orderType st,
                       price = (if form_orderType st = Limit
                                then Some (parseFloat (form_price st)) else None),
                       posSide = Some (form_posSide st)\<rparr>)
         in case placeRes of
              Fulfilled result \<Rightarrow>
                (if placed result then
                   (let st = st\<lparr>amount := [], form_price := []\<rparr>;
                        (st, evs) = fetchAllData (Some accountId) st balanceRes positionsRes ordersRes
                    in (st\<lparr>isSubmitting := False\<rparr>,
                        [call, ToastSuccess (side_toUpperCase (form_side st)
                                  @ '' order placed successfully!'')] @ evs))
                 else
                   (st\<lparr>isSubmitting := False\<rparr>,
                    [call, ToastError (or_default (error result) ''Failed to place order'')]))
            | Rejected message \<Rightarrow>
                (st\<lparr>isSubmitting := False\<rparr>,
                 [call, ConsoleError ''Order error:'',
                  ToastError (or_default (Some message) ''Failed to place order'')])))"

text \<open>
  The copy of the handler under \<open>src/frontend\<close>: the same steps, with no account
  id and no position side in the call.
\<close>

definition handleSubmitOrder0 ::
  "(string \<Rightarrow> jsnum) \<Rightarrow> trading_view \<Rightarrow> place_result outcome
     \<Rightarrow> OKXBalance list api_response outcome \<Rightarrow> OKXPosition list api_response outcome
     \<Rightarrow> OKXOrder list api_response outcome \<Rightarrow> trading_view \<times> effect list" where
  "handleSubmitOrder0 parseFloat st placeRes balanceRes positionsRes ordersRes =
     (if amount st = [] \<or> js_le (parseFloat (amount st)) (Fin 0)
      then (st, [ToastError ''Please enter a valid amount''])
      else if form_orderType st = Limit
                \<and> (form_price st = [] \<or> js_le (parseFloat (form_price st)) (Fin 0))
      then (st, [ToastError ''Please enter a valid price for limit order''])
      else
        (let st = st\<lparr>isSubmitting := True\<rparr>;
             call = Api (PlaceOKXOrder None
                      \<lparr>symbol = form_symbol st, side = form_side st,
                       quantity = parseFloat (amount st),
                       orderType = form_orderType st,
                       price = (if form_orderType st = Limit
                                then Some (parseFloat (form_price st)) else None),
                       posSide = None\<rparr>)
         in case placeRes of
              Fulfilled result \<Rightarrow>
                (if placed result then
                   (let st = st\<lparr>amount := [], form_price := []\<rparr>;
                        (st, evs) = fetchAllData None st balanceRes positionsRes ordersRes
                    in (st\<lparr>isSubmitting := False\<rparr>,
                        [call, ToastSuccess (side_toUpperCase (form_side st)
                                  @ '' order placed successfully!'')] @ evs))
                 else
                   (st\<lparr>isSubmitting := False\<rparr>,
                    [call, ToastError (or_default (error result) ''Failed to place order'')]))
            | Rejected message \<Rightarrow>
                (st\<lparr>isSubmitting := False\<rparr>,
                 [call, ConsoleError ''Order error:'',
                  ToastError (or_default (Some message) ''Failed to place order'')])))"

text \<open>
  \<open>handleRefresh\<close>: the cached history and trades are emptied, then the three
  fetches are called, the two history fetches with the force flag, and the toast
  is shown; none of the fetches is awaited.  So the five queries start and the
  toast appears before any outcome is handled.  The history fetches test the
  lists of the render the handler belongs to, not the emptied ones, and it is the
  force flag that lets them start.  The three fetches write different fields of
  the state, so the order in which they finish does not change the state that
  results; what they report on failure is listed in the order they were called.
\<close>

definition handleRefresh ::
  "nat \<Rightarrow> trading_view \<Rightarrow> OKXBalance list api_response outcome
     \<Rightarrow> OKXPosition list api_response outcome \<Rightarrow> OKXOrder list api_response outcome
     \<Rightarrow> OKXOrder list api_response outcome \<Rightarrow> OKXTrade list api_response outcome
     \<Rightarrow> trading_view \<times> effect list" where
  "handleRefresh accountId st balanceRes positionsRes ordersRes historyRes tradesRes =
     (let history_starts = fetchOrderHistory_starts True (orderHistory st);
          trades_start = fetchTrades_starts True (trades st);
          st' = st\<lparr>orderHistory := []\<rparr>;
          st' = st'\<lparr>trades := []\<rparr>;
          st' = st'\<lparr>refreshing := True\<rparr>;
          started = fetchAllData_calls (Some accountId)
                    @ (if history_starts then [Api (GetOKXOrderHistory (Some accountId))] else [])
                    @ (if trades_start then [Api (GetOKXTrades (Some accountId))] else [])
                    @ [ToastSuccess ''Refreshing data...''];
          (st', e1) = fetchAllData_settle st' balanceRes positionsRes ordersRes;
          (st', e2) = (if history_starts then fetchOrderHistory_settle st' historyRes
                       else (st', []));
          (st', e3) = (if trades_start then fetchTrades_settle st' tradesRes else (st', []))
      in (st', started @ e1 @ e2 @ e3))"


section \<open>The account view (\<open>OKXAccountView\<close>)\<close>

record account_view = account_data +
  summary :: "OKXAccountSummary option"

definition initial_account_view :: account_view where
  "initial_account_view =
     \<lparr>balance = [], positions = [], openOrders = [], orderHistory = [], trades = [],
      loading = True, refreshing = False, summary = None\<rparr>"

text \<open>
  \<open>fetchAllData\<close> of the account view: the summary is awaited first, then the
  three section queries together.  One \<open>try\<close> block holds all of it, so a
  rejected summary query ends the function before the section queries start, and
  a rejected section query leaves all three sections as they were.
\<close>

definition fetchAllData_okx ::
  "nat \<Rightarrow> account_view \<Rightarrow> OKXAccountSummary api_response outcome
     \<Rightarrow> OKXBalance list api_response outcome \<Rightarrow> OKXPosition list api_response outcome
     \<Rightarrow> OKXOrder list api_response outcome \<Rightarrow> account_view \<times> effect list" where
  "fetchAllData_okx accountId st summaryRes balanceRes positionsRes openOrdersRes =
     (let st = st\<lparr>refreshing := True\<rparr>;
          failed = [ConsoleError ''Failed to fetch OKX data:'',
                    ToastError ''Failed to load OKX account data'']
      in case summaryRes of
           Rejected _ \<Rightarrow>
             (st\<lparr>loading := False, refreshing := False\<rparr>,
              [Api (GetOKXAccountSummary (Some accountId))] @ failed)
         | Fulfilled sr \<Rightarrow>
             (let st = (if success sr then st\<lparr>summary := Some (payload sr)\<rparr> else st);
                  calls = [Api (GetOKXAccountSummary (Some accountId)),
                           Api (GetOKXBalance (Some accountId)),
                           Api (GetOKXPositions (Some accountId)),
                           Api (GetOKXOpenOrders (Some accountId))]
              in case (balanceRes, positionsRes, openOrdersRes) of
                   (Fulfilled b, Fulfilled p, Fulfilled os) \<Rightarrow>
                     (let st = (if success b then st\<lparr>balance := payload b\<rparr> else st);
                          st = (if success p then st\<lparr>positions := payload p\<rparr> else st);
                          st = (if success os then st\<lparr>openOrders := payload os\<rparr> else st)
                      in (st\<lparr>loading := False, refreshing := False\<rparr>, calls))
                 | _ \<Rightarrow> (st\<lparr>loading := False, refreshing := False\<rparr>, calls @ failed)))"

definition fetchOrderHistory_okx ::
  "nat \<Rightarrow> account_view \<Rightarrow> OKXOrder list api_response outcome
     \<Rightarrow> account_view \<times> effect list" where
  "fetchOrderHistory_okx accountId st res =
     (if length (orderHistory st) > 0 then (st, [])
      else case res of
             Fulfilled r \<Rightarrow>
               ((if success r then st\<lparr>orderHistory := payload r\<rparr> else st),
                [Api (GetOKXOrderHistory (Some accountId))])
           | Rejected _ \<Rightarrow>
               (st, [Api (GetOKXOrderHistory (Some accountId)),
                     ConsoleError ''Failed to fetch order history:'']))"

definition fetchTrades_okx ::
  "nat \<Rightarrow> account_view \<Rightarrow> OKXTrade list api_response outcome
     \<Rightarrow> account_view \<times> effect list" where
  "fetchTrades_okx accountId st res =
     (if length (trades st) > 0 then (st, [])
      else case res of
             Fulfilled r \<Rightarrow>
               ((if success r then st\<lparr>trades := payload r\<rparr> else st),
                [Api (GetOKXTrades (Some accountId))])
           | Rejected _ \<Rightarrow>
               (st, [Api (GetOKXTrades (Some accountId)),
                     ConsoleError ''Failed to fetch trades:'']))"

definition onValueChange_okx ::
  "nat \<Rightarrow> string \<Rightarrow> account_view \<Rightarrow> OKXOrder list api_response outcome
     \<Rightarrow> OKXTrade list api_response outcome \<Rightarrow> account_view \<times> effect list" where
  "onValueChange_okx accountId v st historyRes tradesRes =
     (let (st, e1) = (if v = ''history'' then fetchOrderHistory_okx accountId st historyRes
                      else (st, []));
          (st, e2) = (if v = ''trades'' then fetchTrades_okx accountId st tradesRes
                      else (st, []))
      in (st, e1 @ e2))"

text \<open>
  \<open>handleRefresh\<close> of the account view calls \<open>fetchAllData\<close> without awaiting
  it and shows a toast.  \<open>fetchAllData\<close> runs up to its first \<open>await\<close>, which
  is the summary query, so the toast comes right after that query has started
  and before anything else \<open>fetchAllData\<close> does.  The cached history and trades
  are not touched.
\<close>

definition handleRefresh_okx ::
  "nat \<Rightarrow> account_view \<Rightarrow> OKXAccountSummary api_response outcome
     \<Rightarrow> OKXBalance list api_response outcome \<Rightarrow> OKXPosition list api_response outcome
     \<Rightarrow> OKXOrder list api_response outcome \<Rightarrow> account_view \<times> effect list" where
  "handleRefresh_okx accountId st summaryRes balanceRes positionsRes openOrdersRes =
     (let (st', e) = fetchAllData_okx accountId st summaryRes balanceRes positionsRes openOrdersRes
      in (st', (case e of
                  [] \<Rightarrow> [ToastSuccess ''Refreshing OKX data...'']
                | first_call # later \<Rightarrow>
                    first_call # ToastSuccess ''Refreshing OKX data...'' # later)))"

section \<open>The trading panel (\<open>OKXTradingPanel\<close>)\<close>

definition CRYPTO_SYMBOLS :: "string list" where
  "CRYPTO_SYMBOLS = [''BTC'', ''ETH'', ''SOL'', ''BNB'', ''XRP'', ''DOGE'', ''ADA'',
                     ''MATIC'', ''DOT'', ''AVAX'']"

definition TRADING_PAIRS :: "string list" where
  "TRADING_PAIRS = [''BTC-USDT-SWAP'', ''ETH-USDT-SWAP'', ''SOL-USDT-SWAP'',
                    ''BNB-USDT-SWAP'', ''XRP-USDT-SWAP'', ''DOGE-USDT-SWAP'',
                    ''ADA-USDT-SWAP'', ''AVAX-USDT-SWAP'', ''MATIC-USDT-SWAP'',
                    ''LINK-USDT-SWAP'']"

record trading_panel =
  panel_symbol :: string
  panel_side :: side
  panel_quantity :: string
  panel_orderType :: order_type
  panel_price :: string
  panel_loading :: bool

definition initial_trading_panel :: trading_panel where
  "initial_trading_panel =
     \<lparr>panel_symbol = ''BTC'', panel_side = Buy, panel_quantity = ''0.001'',
      panel_orderType = Market, panel_price = [], panel_loading = False\<rparr>"

text \<open>The symbol the panel sends: the selected base with \<open>-USDT-SWAP\<close> appended.\<close>

definition panel_order_symbol :: "string \<Rightarrow> string" where
  "panel_order_symbol base = base @ ''-USDT-SWAP''"

definition panel_body :: "(string \<Rightarrow> jsnum) \<Rightarrow> trading_panel \<Rightarrow> (string \<times> json) list" where
  "panel_body parseFloat st =
     [(''symbol'', JString (panel_order_symbol (panel_symbol st))),
      (''side'', JString (side_str (panel_side st))),
      (''order_type'', JString (order_type_str (panel_orderType st))),
      (''quantity'', json_of_num (parseFloat (panel_quantity st)))]
     @ (if panel_orderType st = Limit
        then [(''price'', json_of_num (parseFloat (panel_price st)))] else [])"

text \<open>
  \<open>handlePlaceOrder\<close>: the same two checks, then a direct \<open>fetch\<close> of the order
  endpoint.  \<open>onRefresh\<close> tells whether the optional callback was given.  The
  outcome is rejected when \<open>fetch\<close> or \<open>response.json()\<close> throws.
\<close>

definition handlePlaceOrder ::
  "(string \<Rightarrow> jsnum) \<Rightarrow> bool \<Rightarrow> trading_panel \<Rightarrow> place_result outcome
     \<Rightarrow> trading_panel \<times> effect list" where
  "handlePlaceOrder parseFloat onRefresh st res =
     (if panel_quantity st = [] \<or> js_le (parseFloat (panel_quantity st)) (Fin 0)
      then (st, [ToastError ''Please enter a valid quantity''])
      else if panel_orderType st = Limit
                \<and> (panel_price st = [] \<or> js_le (parseFloat (panel_price st)) (Fin 0))
      then (st, [ToastError ''Please enter a valid price for limit order''])
      else
        (let call = Fetch (POST ''/api/okx-account/order'' (panel_body parseFloat st));
             st = st\<lparr>panel_loading := True\<rparr>
         in case res of
              Fulfilled data \<Rightarrow>
                (if placed data then
                   (st\<lparr>panel_quantity := ''0.001'', panel_price := [], panel_loading := False\<rparr>,
                    [call, ToastSuccess (''Order placed successfully: ''
                              @ (case order_id data of None \<Rightarrow> ''undefined'' | Some i \<Rightarrow> i))]
                    @ (if onRefresh then [SetTimeout_onRefresh 1000] else []))
                 else
                   (st\<lparr>panel_loading := False\<rparr>,
                    [call, ToastError (''Failed to place order: ''
                              @ or_default (error data) ''Unknown error'')]))
            | Rejected _ \<Rightarrow>
                (st\<lparr>panel_loading := False\<rparr>,
                 [call, ConsoleError ''Failed to place order:'',
                  ToastError ''Failed to place order''])))"

section \<open>The WebSocket connection (\<open>main.tsx\<close>)\<close>

text \<open>
  The connection code lives in one effect of the \<open>App\<close> component.  Each run of
  the effect creates a closure with its own variables \<open>ws\<close> and
  \<open>reconnectTimer\<close>; the handlers registered on a socket belong to the closure
  whose \<open>connectWebSocket\<close> constructed it (the function that would remove them
  is returned by \<open>connectWebSocket\<close> and dropped by every caller).  The module
  variable \<open>__WS_SINGLETON__\<close> is shared by all closures, and \<open>wsRef\<close> belongs
  to a component instance.

  Sockets, closures and timers are numbered in the order they are created.
\<close>

datatype readyState = CONNECTING | OPEN | CLOSING | CLOSED

datatype command =
    Bootstrap string nat
  | Get_snapshot
  | Switch_user string
  | Switch_account nat

record closure =
  ws :: "nat option"
  reconnectTimer :: "nat option"
  instance_of :: nat

record ws_state =
  WS_SINGLETON :: "nat option"
  sockets :: "readyState list"
  owner :: "nat list"
  closures :: "closure list"
  wsRef :: "nat \<Rightarrow> nat option"
  timers :: "(nat \<times> nat \<times> nat) list"
  next_timer :: nat
  sent :: "(nat \<times> command) list"

definition initial_ws_state :: ws_state where
  "initial_ws_state =
     \<lparr>WS_SINGLETON = None, sockets = [], owner = [], closures = [],
      wsRef = (\<lambda>_. None), timers = [], next_timer = 0, sent = []\<rparr>"

text \<open>
  \<open>setTimeout(connectWebSocket, delay)\<close> inside closure \<open>c\<close>, stored in its
  \<open>reconnectTimer\<close>; a pending timer is (id, closure, delay).
\<close>

definition setTimeout_connect :: "nat \<Rightarrow> nat \<Rightarrow> ws_state \<Rightarrow> ws_state" where
  "setTimeout_connect c delay st =
     st\<lparr>timers := timers st @ [(next_timer st, c, delay)],
        next_timer := Suc (next_timer st),
        closures := (closures st)[c := (closures st ! c)\<lparr>reconnectTimer := Some (next_timer st)\<rparr>]\<rparr>"

definition clearTimeout :: "nat \<Rightarrow> ws_state \<Rightarrow> ws_state" where
  "clearTimeout t st = st\<lparr>timers := filter (\<lambda>e. fst e \<noteq> t) (timers st)\<rparr>"

text \<open>
  \<open>socket.send(data)\<close>: the message goes out on an open socket; on a connecting
  socket the call throws, on a closing or closed one the data is dropped.  The
  handlers do not catch the exception, so in every case but the first nothing is
  sent.
\<close>

definition send :: "nat option \<Rightarrow> command \<Rightarrow> ws_state \<Rightarrow> ws_state" where
  "send target data st =
     (case target of
        None \<Rightarrow> st
      | Some w \<Rightarrow> if w < length (sockets st) \<and> sockets st ! w = OPEN
                  then st\<lparr>sent := sent st @ [(w, data)]\<rparr> else st)"

text \<open>
  \<open>connectWebSocket\<close> run in closure \<open>c\<close>.  The flag says whether
  \<open>new WebSocket(wsUrl)\<close> throws; then the \<open>catch\<close> block schedules another
  attempt after 5000 ms.  Otherwise the new socket becomes the singleton, the
  closure's \<open>ws\<close> and the \<open>wsRef\<close> of the closure's component.
\<close>

definition connectWebSocket :: "nat \<Rightarrow> bool \<Rightarrow> ws_state \<Rightarrow> ws_state" where
  "connectWebSocket c throws st =
     (if throws then setTimeout_connect c 5000 st
      else
        (let w = length (sockets st)
         in st\<lparr>sockets := sockets st @ [CONNECTING],
               owner := owner st @ [c],
               closures := (closures st)[c := (closures st ! c)\<lparr>ws := Some w\<rparr>],
               WS_SINGLETON := Some w,
               wsRef := (wsRef st)(instance_of (closures st ! c) := Some w)\<rparr>))"

text \<open>The test \<open>!ws || ws.readyState === CLOSING || ws.readyState === CLOSED\<close>.\<close>

definition created :: "ws_state \<Rightarrow> bool" where
  "created st =
     (case WS_SINGLETON st of
        None \<Rightarrow> True
      | Some w \<Rightarrow> sockets st ! w = CLOSING \<or> sockets st ! w = CLOSED)"

text \<open>
  One run of the effect for component instance \<open>i\<close>: a new closure whose \<open>ws\<close>
  starts as the singleton; it connects when \<open>created\<close> holds and otherwise
  points \<open>wsRef\<close> at the existing socket.
\<close>

definition effect_run :: "nat \<Rightarrow> bool \<Rightarrow> ws_state \<Rightarrow> ws_state" where
  "effect_run i throws st =
     (let c = length (closures st);
          st' = st\<lparr>closures := closures st
                   @ [\<lparr>ws = WS_SINGLETON st, reconnectTimer = None, instance_of = i\<rparr>]\<rparr>
      in if created st then connectWebSocket c throws st'
         else st'\<lparr>wsRef := (wsRef st')(i := WS_SINGLETON st)\<rparr>)"

text \<open>The function the effect returns: it clears the closure's reconnect timer.\<close>

definition cleanup :: "nat \<Rightarrow> ws_state \<Rightarrow> ws_state" where
  "cleanup c st =
     (case reconnectTimer (closures st ! c) of
        None \<Rightarrow> st
      | Some t \<Rightarrow> clearTimeout t st)"

definition handleOpen :: "nat \<Rightarrow> ws_state \<Rightarrow> ws_state" where
  "handleOpen c st = send (ws (closures st ! c)) (Bootstrap ''default'' 10000) st"

text \<open>
  \<open>handleMessage\<close>, as far as the connection is concerned: three message types
  make it send \<open>get_snapshot\<close>; the rest only sets component state.
\<close>

definition handleMessage :: "nat \<Rightarrow> string \<Rightarrow> ws_state \<Rightarrow> ws_state" where
  "handleMessage c msg_type st =
     (if msg_type = ''bootstrap_ok'' \<or> msg_type = ''order_filled'' \<or> msg_type = ''order_pending''
      then send (ws (closures st ! c)) Get_snapshot st
      else st)"

definition handleClose :: "nat \<Rightarrow> nat \<Rightarrow> ws_state \<Rightarrow> ws_state" where
  "handleClose c code st =
     (let i = instance_of (closures st ! c);
          st = st\<lparr>WS_SINGLETON := None\<rparr>;
          st = (if wsRef st i = ws (closures st ! c) then st\<lparr>wsRef := (wsRef st)(i := None)\<rparr>
                else st)
      in if code \<noteq> 1000 \<and> code \<noteq> 1001 then setTimeout_connect c 3000 st else st)"

text \<open>
  What happens to the page: React runs the effect or a cleanup, the browser
  reports a socket event, a timer fires.  An event that cannot happen in the
  current state (an unknown socket, a socket in the wrong state, a timer that is
  not pending) changes nothing.
\<close>

datatype ws_event =
    Effect nat bool
  | Cleanup nat
  | SocketOpen nat
  | SocketMessage nat string
  | SocketClosing nat
  | SocketClose nat nat
  | TimerFire nat bool

fun is_Effect :: "ws_event \<Rightarrow> bool" where
  "is_Effect (Effect _ _) = True"
| "is_Effect _ = False"

fun step :: "ws_state \<Rightarrow> ws_event \<Rightarrow> ws_state" where
  "step st (Effect i throws) = effect_run i throws st"
| "step st (Cleanup c) = (if c < length (closures st) then cleanup c st else st)"
| "step st (SocketOpen w) =
     (if w < length (sockets st) \<and> sockets st ! w = CONNECTING
      then handleOpen (owner st ! w) (st\<lparr>sockets := (sockets st)[w := OPEN]\<rparr>)
      else st)"
| "step st (SocketMessage w msg_type) =
     (if w < length (sockets st) \<and> sockets st ! w = OPEN
      then handleMessage (owner st ! w) msg_type st
      else st)"
| "step st (SocketClosing w) =
     (if w < length (sockets st) \<and> (sockets st ! w = CONNECTING \<or> sockets st ! w = OPEN)
      then st\<lparr>sockets := (sockets st)[w := CLOSING]\<rparr>
      else st)"
| "step st (SocketClose w code) =
     (if w < length (sockets st) \<and> sockets st ! w \<noteq> CLOSED
      then handleClose (owner st ! w) code (st\<lparr>sockets := (sockets st)[w := CLOSED]\<rparr>)
      else st)"
| "step st (TimerFire t throws) =
     (case filter (\<lambda>e. fst e = t) (timers st) of
        [] \<Rightarrow> st
      | e # _ \<Rightarrow> connectWebSocket (fst (snd e)) throws (clearTimeout t st))"

definition run :: "ws_state \<Rightarrow> ws_event list \<Rightarrow> ws_state" where
  "run st evs = foldl step st evs"

text \<open>The number of sockets that are not closed.\<close>

definition live_count :: "ws_state \<Rightarrow> nat" where
  "live_count st = length (filter (\<lambda>r. r \<noteq> CLOSED) (sockets st))"

text \<open>
  What holds of the closures in every state the events can lead to: every socket
  has an owning closure, a socket that is not closed is its owner's \<open>ws\<close>, a
  closure with a pending timer owns no socket that is not closed, and no closure
  has two pending timers.
\<close>

definition ws_inv :: "ws_state \<Rightarrow> bool" where
  "ws_inv st \<longleftrightarrow>
     length (owner st) = length (sockets st)
     \<and> (\<forall>w < length (sockets st). owner st ! w < length (closures st))
     \<and> (\<forall>e \<in> set (timers st). fst (snd e) < length (closures st))
     \<and> (\<forall>w < length (sockets st). sockets st ! w \<noteq> CLOSED
            \<longrightarrow> ws (closures st ! (owner st ! w)) = Some w)
     \<and> (\<forall>e \<in> set (timers st). \<forall>w < length (sockets st).
            owner st ! w = fst (snd e) \<longrightarrow> sockets st ! w = CLOSED)
     \<and> distinct (map (\<lambda>e. fst (snd e)) (timers st))"

text \<open>
  At most one socket is open or about to be: the sockets that are not closed and
  the pending reconnect timers together number at most one.
\<close>

definition one_at_most :: "ws_state \<Rightarrow> bool" where
  "one_at_most st \<longleftrightarrow> live_count st + length (timers st) \<le> 1"

text \<open>The singleton, when set, is one of the sockets constructed so far.\<close>

definition singleton_known :: "ws_state \<Rightarrow> bool" where
  "singleton_known st =
     (case WS_SINGLETON st of None \<Rightarrow> True | Some w \<Rightarrow> w < length (sockets st))"

text \<open>The number of bootstrap commands sent on a socket so far.\<close>

fun is_Bootstrap :: "command \<Rightarrow> bool" where
  "is_Bootstrap (Bootstrap _ _) = True"
| "is_Bootstrap _ = False"

definition bootstraps :: "ws_state \<Rightarrow> nat \<Rightarrow> nat" where
  "bootstraps st w = length (filter (\<lambda>m. fst m = w \<and> is_Bootstrap (snd m)) (sent st))"

definition bootstrap_inv :: "ws_state \<Rightarrow> bool" where
  "bootstrap_inv st \<longleftrightarrow>
     (\<forall>w. bootstraps st w \<le> 1
        \<and> (w < length (sockets st) \<and> sockets st ! w = OPEN \<longrightarrow> bootstraps st w = 1)
        \<and> (length (sockets st) \<le> w \<or> sockets st ! w = CONNECTING \<longrightarrow> bootstraps st w = 0))"

section \<open>Server-side parts known from the specification only\<close>

subsection \<open>Symbol translation\<close>

text \<open>Splitting a string at every occurrence of a separator character.\<close>

fun split_on :: "char \<Rightarrow> string \<Rightarrow> string list" where
  "split_on c [] = [[]]"
| "split_on c (x # xs) =
     (if x = c then [] # split_on c xs
      else (case split_on c xs of
              [] \<Rightarrow> [[x]]
            | y # ys \<Rightarrow> (x # y) # ys))"

text \<open>
  Modelled from the spec: the symbol translation of the Exchange Adapter, whose
  code is not among the sources.  The spec gives the canonical form
  \<open>BASE-QUOTE-SWAP\<close> and a wire form ``pairing base/quote with settlement
  currency''; the README shows \<open>BTC-USDT-SWAP\<close> becoming \<open>BTC/USDT:USDT\<close>, the
  settlement currency being the quote currency.  A string of another shape has
  no translation.
\<close>

definition toWire :: "string \<Rightarrow> string option" where
  "toWire s =
     (case split_on CHR ''-'' s of
        [base, quote, kind] \<Rightarrow>
          if kind = ''SWAP'' \<and> base \<noteq> [] \<and> quote \<noteq> []
          then Some (base @ ''/'' @ quote @ '':'' @ quote) else None
      | _ \<Rightarrow> None)"

definition toCanonical :: "string \<Rightarrow> string option" where
  "toCanonical w =
     (case split_on CHR ''/'' w of
        [base, rest] \<Rightarrow>
          (case split_on CHR '':'' rest of
             [quote, settle] \<Rightarrow>
               if base \<noteq> [] \<and> quote \<noteq> [] \<and> settle = quote
               then Some (base @ ''-'' @ quote @ ''-SWAP'') else None
           | _ \<Rightarrow> None)
      | _ \<Rightarrow> None)"

text \<open>
  The supported instruments: the pairs the trading view offers, the pairs the
  trading panel builds from its base symbols, and the pairs the README lists.
\<close>

definition README_PAIRS :: "string list" where
  "README_PAIRS = [''BTC-USDT-SWAP'', ''ETH-USDT-SWAP'', ''SOL-USDT-SWAP'',
                   ''DOGE-USDT-SWAP'', ''XRP-USDT-SWAP'', ''ADA-USDT-SWAP'',
                   ''AVAX-USDT-SWAP'', ''DOT-USDT-SWAP'', ''MATIC-USDT-SWAP'',
                   ''LTC-USDT-SWAP'']"

definition supported_symbols :: "string list" where
  "supported_symbols = TRADING_PAIRS @ map panel_order_symbol CRYPTO_SYMBOLS @ README_PAIRS"

subsection \<open>Snapshot summary\<close>

text \<open>
  The snapshot sections as the spec lists them, with exact amounts: a balance
  \<open>{currency, total, free, used}\<close>, and of a position its notional value and
  unrealized profit.
\<close>

record Balance =
  bal_currency :: string
  bal_total :: rat
  bal_free :: rat
  bal_used :: rat

record Position =
  position_symbol :: string
  position_notional :: rat
  position_unrealizedPnl :: rat

record Summary =
  totalBalance :: rat
  freeBalance :: rat
  usedBalance :: rat
  positionsValue :: rat
  positionsCount :: nat
  unrealizedPnl_total :: rat
  openOrdersCount :: nat

datatype 'a fetched = Unavailable | Available 'a

record 'o Snapshot =
  snap_balances :: "Balance list fetched"
  snap_positions :: "Position list fetched"
  snap_openOrders :: "'o list fetched"
  snap_summary :: "Summary option"

text \<open>
  Modelled from the spec: the summary derivation of the Synchronization Engine,
  whose code is not among the sources (the client only declares the fields it
  receives).  In the spec's words: total balance is the free and used balances
  valued in quote currency plus the positions value, which is the sum of the
  absolute notional values; unrealized profit is the sum over the positions;
  used margin is total minus free.  The first argument values an amount of a
  currency in the quote currency.
\<close>

definition derive_summary ::
  "(string \<Rightarrow> rat \<Rightarrow> rat) \<Rightarrow> Balance list \<Rightarrow> Position list \<Rightarrow> 'o list \<Rightarrow> Summary" where
  "derive_summary valued balances poss orders =
     (let free_total = (\<Sum>b\<leftarrow>balances. valued (bal_currency b) (bal_free b));
          used_total = (\<Sum>b\<leftarrow>balances. valued (bal_currency b) (bal_used b));
          pos_value = (\<Sum>p\<leftarrow>poss. \<bar>position_notional p\<bar>);
          total_balance = free_total + used_total + pos_value
      in \<lparr>totalBalance = total_balance,
          freeBalance = free_total,
          usedBalance = total_balance - free_total,
          positionsValue = pos_value,
          positionsCount = length poss,
          unrealizedPnl_total = (\<Sum>p\<leftarrow>poss. position_unrealizedPnl p),
          openOrdersCount = length orders\<rparr>)"

text \<open>
  Modelled from the spec: snapshot assembly.  Each of the three queries gives its
  section or fails; a failed section is \<open>Unavailable\<close>, and the summary is computed
  only when all three sections arrived.
\<close>

definition assemble_snapshot ::
  "(string \<Rightarrow> rat \<Rightarrow> rat) \<Rightarrow> Balance list fetched \<Rightarrow> Position list fetched
     \<Rightarrow> 'o list fetched \<Rightarrow> 'o Snapshot" where
  "assemble_snapshot valued balances poss orders =
     \<lparr>snap_balances = balances, snap_positions = poss, snap_openOrders = orders,
      snap_summary =
        (case (balances, poss, orders) of
           (Available b, Available p, Available os) \<Rightarrow> Some (derive_summary valued b p os)
         | _ \<Rightarrow> None)\<rparr>"

section \<open>Properties of the HTTP client\<close>

lemma history_params_default:
  "history_params symbol_arg None None =
     (case symbol_arg of None \<Rightarrow> [] | Some s \<Rightarrow> if s = [] then [] else [(''symbol'', s)])
     @ [(''limit'', ''100''), (''days'', ''7'')]"
  by (simp add: history_params_def append_def toString_def digit_char_def split: option.splits)

lemma params_toString_default:
  "params_toString (history_params symbol_arg None None) =
     (case symbol_arg of None \<Rightarrow> []
      | Some s \<Rightarrow> if s = [] then [] else ''symbol='' @ urlencode s @ ''&'')
     @ ''limit=100&days=7''"
  by (simp add: history_params_default params_toString_def urlencode_def encode_byte_def
        unreserved_def split: option.splits)

text \<open>
  Claim C9.  A call of the order-history query or of the trades query that gives
  no limit and no number of days fetches a URL whose query string ends with
  \<open>limit=100&days=7\<close>, after the symbol parameter if a symbol was given.
\<close>

theorem default_history_window:
  "getOKXOrderHistory symbol_arg None None =
     ''/api/okx-account/orders/history?''
     @ (case symbol_arg of None \<Rightarrow> []
        | Some s \<Rightarrow> if s = [] then [] else ''symbol='' @ urlencode s @ ''&'')
     @ ''limit=100&days=7''
   \<and> getOKXTrades symbol_arg None None =
     ''/api/okx-account/trades?''
     @ (case symbol_arg of None \<Rightarrow> []
        | Some s \<Rightarrow> if s = [] then [] else ''symbol='' @ urlencode s @ ''&'')
     @ ''limit=100&days=7''"
  by (simp add: getOKXOrderHistory_def getOKXTrades_def params_toString_default
        API_BASE_URL_def)

lemma place_all_append: "place_all sent_before rs = sent_before @ map placeOKXOrder rs"
  by (induction rs arbitrary: sent_before) auto

text \<open>
  Claim C2, as the code has it.  The order request has no correlation id: its
  body holds the symbol, the side, the quantity, the order type and, when given,
  the price.  Every call of \<open>placeOKXOrder\<close> puts its own request on the network,
  so two calls with the same order send two equal requests.
\<close>

theorem placeOKXOrder_sends_every_call:
  "place_all sent_before rs = sent_before @ map placeOKXOrder rs
   \<and> place_all sent_before [r, r] = sent_before @ [placeOKXOrder r, placeOKXOrder r]
   \<and> length (place_all sent_before rs) = length sent_before + length rs
   \<and> map fst (backendRequest r) =
       [''symbol'', ''side'', ''quantity'', ''order_type'']
       @ (case price r of None \<Rightarrow> [] | Some p \<Rightarrow> [''price''])"
  by (simp add: place_all_append backendRequest_def split: option.splits)

theorem duplicate_order_counterexample:
  "map fst (backendRequest
        \<lparr>symbol = ''BTC-USDT-SWAP'', side = Buy, quantity = Fin 1, orderType = Market,
         price = None, posSide = None\<rparr>)
     = [''symbol'', ''side'', ''quantity'', ''order_type'']
   \<and> \<not> length (place_all []
        [\<lparr>symbol = ''BTC-USDT-SWAP'', side = Buy, quantity = Fin 1, orderType = Market,
          price = None, posSide = None\<rparr>,
         \<lparr>symbol = ''BTC-USDT-SWAP'', side = Buy, quantity = Fin 1, orderType = Market,
          price = None, posSide = None\<rparr>]) \<le> 1"
  by (simp add: backendRequest_def)

section \<open>Properties of the order form\<close>

lemma fetchAllData_form:
  "fetchAllData a (st::trading_view) b p os = (st', evs) \<Longrightarrow>
     form_symbol st' = form_symbol st \<and> form_side st' = form_side st
     \<and> form_posSide st' = form_posSide st \<and> form_orderType st' = form_orderType st
     \<and> amount st' = amount st \<and> form_price st' = form_price st
     \<and> isSubmitting st' = isSubmitting st"
  by (auto simp: fetchAllData_def fetchAllData_settle_def Let_def
      split: outcome.splits if_splits prod.splits)

lemma fetchAllData_no_submission:
  "\<not> list_ex is_order_submission (snd (fetchAllData a st b p os))"
  by (auto simp: fetchAllData_def fetchAllData_settle_def fetchAllData_calls_def Let_def
      split: outcome.splits prod.splits)

text \<open>
  What each copy of \<open>handleSubmitOrder\<close> does, by the two checks on the form and
  by the outcome of the placement.
\<close>

lemma handleSubmitOrder_paths:
  assumes "handleSubmitOrder pf acct st placeRes b p os = (st', evs)"
  shows "(if amount st = [] \<or> js_le (pf (amount st)) (Fin 0)
             \<or> (form_orderType st = Limit
                 \<and> (form_price st = [] \<or> js_le (pf (form_price st)) (Fin 0)))
          then st' = st \<and> \<not> list_ex is_order_submission evs
          else list_ex is_order_submission evs
             \<and> (case placeRes of
                   Rejected m \<Rightarrow> st' = st\<lparr>isSubmitting := False\<rparr>
                 | Fulfilled r \<Rightarrow>
                     if placed r
                     then amount st' = [] \<and> form_price st' = [] \<and> isSubmitting st' = False
                        \<and> form_symbol st' = form_symbol st \<and> form_side st' = form_side st
                        \<and> form_posSide st' = form_posSide st
                        \<and> form_orderType st' = form_orderType st
                     else st' = st\<lparr>isSubmitting := False\<rparr>))"
  using assms
  by (auto simp: handleSubmitOrder_def Let_def split: outcome.splits if_splits prod.splits
      dest!: fetchAllData_form)

lemma handleSubmitOrder0_paths:
  assumes "handleSubmitOrder0 pf st placeRes b p os = (st', evs)"
  shows "(if amount st = [] \<or> js_le (pf (amount st)) (Fin 0)
             \<or> (form_orderType st = Limit
                 \<and> (form_price st = [] \<or> js_le (pf (form_price st)) (Fin 0)))
          then st' = st \<and> \<not> list_ex is_order_submission evs
          else list_ex is_order_submission evs
             \<and> (case placeRes of
                   Rejected m \<Rightarrow> st' = st\<lparr>isSubmitting := False\<rparr>
                 | Fulfilled r \<Rightarrow>
                     if placed r
                     then amount st' = [] \<and> form_price st' = [] \<and> isSubmitting st' = False
                        \<and> form_symbol st' = form_symbol st \<and> form_side st' = form_side st
                        \<and> form_posSide st' = form_posSide st
                        \<and> form_orderType st' = form_orderType st
                     else st' = st\<lparr>isSubmitting := False\<rparr>))"
  using assms
  by (auto simp: handleSubmitOrder0_def Let_def split: outcome.splits if_splits prod.splits
      dest!: fetchAllData_form)

text \<open>
  Claim C10.  For both copies of \<open>handleSubmitOrder\<close>.  If one of the two checks
  on the form fails, the state is unchanged and no order is submitted.
  Otherwise the order is submitted, and then: if the placement throws or answers
  \<open>success = false\<close>, the state ends as it was before the call, with the
  in-flight flag false, so every form field keeps its value; if the placement
  succeeds, the amount and the price are emptied, the in-flight flag is false, and
  the symbol, the side, the position side and the order type keep their values.
\<close>

theorem submit_order_form_atomic:
  assumes "h = handleSubmitOrder parseFloat accountId \<or> h = handleSubmitOrder0 parseFloat"
    and "h st placeRes balanceRes positionsRes ordersRes = (st', evs)"
  shows "(if amount st = [] \<or> js_le (parseFloat (amount st)) (Fin 0)
             \<or> (form_orderType st = Limit
                 \<and> (form_price st = [] \<or> js_le (parseFloat (form_price st)) (Fin 0)))
          then st' = st \<and> \<not> list_ex is_order_submission evs
          else list_ex is_order_submission evs
             \<and> (case placeRes of
                   Rejected m \<Rightarrow> st' = st\<lparr>isSubmitting := False\<rparr>
                 | Fulfilled r \<Rightarrow>
                     if placed r
                     then amount st' = [] \<and> form_price st' = [] \<and> isSubmitting st' = False
                        \<and> form_symbol st' = form_symbol st \<and> form_side st' = form_side st
                        \<and> form_posSide st' = form_posSide st
                        \<and> form_orderType st' = form_orderType st
                     else st' = st\<lparr>isSubmitting := False\<rparr>))"
  using assms(1)
proof
  assume "h = handleSubmitOrder parseFloat accountId"
  with assms(2) show ?thesis
    using handleSubmitOrder_paths[of parseFloat accountId st placeRes balanceRes
        positionsRes ordersRes st' evs]
    by simp
next
  assume "h = handleSubmitOrder0 parseFloat"
  with assms(2) show ?thesis
    using handleSubmitOrder0_paths[of parseFloat st placeRes balanceRes
        positionsRes ordersRes st' evs]
    by simp
qed

theorem submit_order_form_atomic_witness:
  "(let st = initial_trading_view\<lparr>amount := ''2'', isSubmitting := False\<rparr>;
        r = handleSubmitOrder (\<lambda>s. Fin 2) 1 st
              (Fulfilled \<lparr>placed = True, order_id = Some ''7'', error = None\<rparr>)
              (Rejected []) (Rejected []) (Rejected [])
    in list_ex is_order_submission (snd r) \<and> amount (fst r) = [] \<and> form_price (fst r) = []
       \<and> isSubmitting (fst r) = False \<and> form_symbol (fst r) = ''BTC-USDT-SWAP'')
   \<and> (let st = initial_trading_view\<lparr>amount := ''2'', isSubmitting := False\<rparr>;
        r = handleSubmitOrder (\<lambda>s. Fin 2) 1 st (Rejected ''HTTP error! status: 500'')
              (Rejected []) (Rejected []) (Rejected [])
    in list_ex is_order_submission (snd r) \<and> fst r = st)
   \<and> (let st = initial_trading_view\<lparr>amount := ''2'', isSubmitting := False\<rparr>;
        r = handleSubmitOrder0 (\<lambda>s. Fin 2) st
              (Fulfilled \<lparr>placed = False, order_id = None, error = Some ''rejected''\<rparr>)
              (Rejected []) (Rejected []) (Rejected [])
    in list_ex is_order_submission (snd r) \<and> fst r = st)
   \<and> (let st = initial_trading_view\<lparr>amount := ''0''\<rparr>;
        r = handleSubmitOrder0 (\<lambda>s. Fin 0) st (Rejected []) (Rejected []) (Rejected [])
              (Rejected [])
    in \<not> list_ex is_order_submission (snd r) \<and> fst r = st)"
proof (intro conjI)
  show "let st = initial_trading_view\<lparr>amount := ''2'', isSubmitting := False\<rparr>;
        r = handleSubmitOrder (\<lambda>s. Fin 2) 1 st
              (Fulfilled \<lparr>placed = True, order_id = Some ''7'', error = None\<rparr>)
              (Rejected []) (Rejected []) (Rejected [])
    in list_ex is_order_submission (snd r) \<and> amount (fst r) = [] \<and> form_price (fst r) = []
       \<and> isSubmitting (fst r) = False \<and> form_symbol (fst r) = ''BTC-USDT-SWAP''"
    using submit_order_form_atomic[of "handleSubmitOrder (\<lambda>s. Fin 2) 1" "\<lambda>s. Fin 2" 1
      "initial_trading_view\<lparr>amount := ''2'', isSubmitting := False\<rparr>"
      "Fulfilled \<lparr>placed = True, order_id = Some ''7'', error = None\<rparr>"
      "Rejected []" "Rejected []" "Rejected []", OF disjI1[OF refl] prod.collapse[symmetric]]
    by (simp add: initial_trading_view_def Let_def)
  show "let st = initial_trading_view\<lparr>amount := ''2'', isSubmitting := False\<rparr>;
        r = handleSubmitOrder (\<lambda>s. Fin 2) 1 st (Rejected ''HTTP error! status: 500'')
              (Rejected []) (Rejected []) (Rejected [])
    in list_ex is_order_submission (snd r) \<and> fst r = st"
    using submit_order_form_atomic[of "handleSubmitOrder (\<lambda>s. Fin 2) 1" "\<lambda>s. Fin 2" 1
      "initial_trading_view\<lparr>amount := ''2'', isSubmitting := False\<rparr>"
      "Rejected ''HTTP error! status: 500''"
      "Rejected []" "Rejected []" "Rejected []", OF disjI1[OF refl] prod.collapse[symmetric]]
    by (simp add: initial_trading_view_def Let_def)
  show "let st = initial_trading_view\<lparr>amount := ''2'', isSubmitting := False\<rparr>;
        r = handleSubmitOrder0 (\<lambda>s. Fin 2) st
              (Fulfilled \<lparr>placed = False, order_id = None, error = Some ''rejected''\<rparr>)
              (Rejected []) (Rejected []) (Rejected [])
    in list_ex is_order_submission (snd r) \<and> fst r = st"
    using submit_order_form_atomic[of "handleSubmitOrder0 (\<lambda>s. Fin 2)" "\<lambda>s. Fin 2" 1
      "initial_trading_view\<lparr>amount := ''2'', isSubmitting := False\<rparr>"
      "Fulfilled \<lparr>placed = False, order_id = None, error = Some ''rejected''\<rparr>"
      "Rejected []" "Rejected []" "Rejected []", OF disjI2[OF refl] prod.collapse[symmetric]]
    by (simp add: initial_trading_view_def Let_def)
  show "let st = initial_trading_view\<lparr>amount := ''0''\<rparr>;
        r = handleSubmitOrder0 (\<lambda>s. Fin 0) st (Rejected []) (Rejected []) (Rejected [])
              (Rejected [])
    in \<not> list_ex is_order_submission (snd r) \<and> fst r = st"
    using submit_order_form_atomic[of "handleSubmitOrder0 (\<lambda>s. Fin 0)" "\<lambda>s. Fin 0" 1
      "initial_trading_view\<lparr>amount := ''0''\<rparr>"
      "Rejected []" "Rejected []" "Rejected []" "Rejected []",
      OF disjI2[OF refl] prod.collapse[symmetric]]
    by (simp add: initial_trading_view_def Let_def)
qed

text \<open>
  The two local checks, read off the three handlers.  First the comparison of
  numbers: a number greater than zero is not \<open><= 0\<close>, and a finite number that
  is not \<open><= 0\<close> is greater than zero.
\<close>

lemma js_gt_not_le: "js_gt x (Fin 0) \<Longrightarrow> \<not> js_le x (Fin 0)"
  by (cases x) auto

lemma number_field_gt:
  "number_field pf v \<Longrightarrow> v \<noteq> [] \<Longrightarrow> \<not> js_le (pf v) (Fin 0) \<Longrightarrow> js_gt (pf v) (Fin 0)"
  by (cases "pf v") (auto simp: number_field_def)

lemma handleSubmitOrder_rejects:
  assumes "amount st = [] \<or> js_le (pf (amount st)) (Fin 0)
           \<or> (form_orderType st = Limit
               \<and> (form_price st = [] \<or> js_le (pf (form_price st)) (Fin 0)))"
  shows "\<exists>m. handleSubmitOrder pf acct st res b p os = (st, [ToastError m])
           \<and> handleSubmitOrder0 pf st res b p os = (st, [ToastError m])"
  using assms by (auto simp: handleSubmitOrder_def handleSubmitOrder0_def)

lemma handlePlaceOrder_rejects:
  assumes "panel_quantity pn = [] \<or> js_le (pf (panel_quantity pn)) (Fin 0)
           \<or> (panel_orderType pn = Limit
               \<and> (panel_price pn = [] \<or> js_le (pf (panel_price pn)) (Fin 0)))"
  shows "\<exists>m. handlePlaceOrder pf onRefresh pn res = (pn, [ToastError m])"
  using assms by (auto simp: handlePlaceOrder_def)

lemma handleSubmitOrder_submits:
  assumes "amount st \<noteq> []" "\<not> js_le (pf (amount st)) (Fin 0)"
    and "form_orderType st = Limit \<longrightarrow>
           form_price st \<noteq> [] \<and> \<not> js_le (pf (form_price st)) (Fin 0)"
  shows "hd (snd (handleSubmitOrder pf acct st res b p os)) =
           Api (PlaceOKXOrder (Some acct)
             \<lparr>symbol = form_symbol st, side = form_side st, quantity = pf (amount st),
              orderType = form_orderType st,
              price = (if form_orderType st = Limit then Some (pf (form_price st)) else None),
              posSide = Some (form_posSide st)\<rparr>)"
    and "hd (snd (handleSubmitOrder0 pf st res b p os)) =
           Api (PlaceOKXOrder None
             \<lparr>symbol = form_symbol st, side = form_side st, quantity = pf (amount st),
              orderType = form_orderType st,
              price = (if form_orderType st = Limit then Some (pf (form_price st)) else None),
              posSide = None\<rparr>)"
    and "snd (handleSubmitOrder pf acct st res b p os) \<noteq> []"
    and "snd (handleSubmitOrder0 pf st res b p os) \<noteq> []"
  using assms
  by (auto simp: handleSubmitOrder_def handleSubmitOrder0_def Let_def
      split: outcome.splits prod.splits)

lemma handlePlaceOrder_submits:
  assumes "panel_quantity pn \<noteq> []" "\<not> js_le (pf (panel_quantity pn)) (Fin 0)"
    and "panel_orderType pn = Limit \<longrightarrow>
           panel_price pn \<noteq> [] \<and> \<not> js_le (pf (panel_price pn)) (Fin 0)"
  shows "hd (snd (handlePlaceOrder pf onRefresh pn res)) =
           Fetch (POST ''/api/okx-account/order'' (panel_body pf pn))"
    and "snd (handlePlaceOrder pf onRefresh pn res) \<noteq> []"
  using assms
  by (auto simp: handlePlaceOrder_def Let_def split: outcome.splits)

lemma network_only_after_checks:
  "list_ex is_network (snd (handleSubmitOrder pf acct st res b p os)) =
     (amount st \<noteq> [] \<and> \<not> js_le (pf (amount st)) (Fin 0)
      \<and> (form_orderType st = Limit \<longrightarrow>
            form_price st \<noteq> [] \<and> \<not> js_le (pf (form_price st)) (Fin 0)))"
  "list_ex is_network (snd (handleSubmitOrder0 pf st res b p os)) =
     (amount st \<noteq> [] \<and> \<not> js_le (pf (amount st)) (Fin 0)
      \<and> (form_orderType st = Limit \<longrightarrow>
            form_price st \<noteq> [] \<and> \<not> js_le (pf (form_price st)) (Fin 0)))"
  "list_ex is_network (snd (handlePlaceOrder pf onRefresh pn res)) =
     (panel_quantity pn \<noteq> [] \<and> \<not> js_le (pf (panel_quantity pn)) (Fin 0)
      \<and> (panel_orderType pn = Limit \<longrightarrow>
            panel_price pn \<noteq> [] \<and> \<not> js_le (pf (panel_price pn)) (Fin 0)))"
  by (auto simp: handleSubmitOrder_def handleSubmitOrder0_def handlePlaceOrder_def Let_def
      split: outcome.splits prod.splits)

text \<open>
  Claim C1.  The fields hold what a number field can hold.  In each of the three
  handlers, a quantity \<open><= 0\<close>, or for a limit order a price \<open><= 0\<close>, ends the
  handler with one error toast, no network call and the state as it was.  A
  network call is made exactly when the quantity is present and greater than
  zero and, for a limit order, the price is present and greater than zero; the
  first call is then the order with that quantity and price.
\<close>

theorem local_validation_before_submission:
  assumes "number_field parseFloat (amount st)" "number_field parseFloat (form_price st)"
    and "number_field parseFloat (panel_quantity pn)"
    and "number_field parseFloat (panel_price pn)"
  shows "(js_le (parseFloat (amount st)) (Fin 0)
            \<or> (form_orderType st = Limit \<and> js_le (parseFloat (form_price st)) (Fin 0)) \<longrightarrow>
          (\<exists>m. handleSubmitOrder parseFloat accountId st placeRes balanceRes positionsRes ordersRes
                 = (st, [ToastError m])
              \<and> handleSubmitOrder0 parseFloat st placeRes balanceRes positionsRes ordersRes
                 = (st, [ToastError m])))
     \<and> (js_le (parseFloat (panel_quantity pn)) (Fin 0)
            \<or> (panel_orderType pn = Limit \<and> js_le (parseFloat (panel_price pn)) (Fin 0)) \<longrightarrow>
          (\<exists>m. handlePlaceOrder parseFloat onRefresh pn placeRes = (pn, [ToastError m])))
     \<and> list_ex is_network
          (snd (handleSubmitOrder parseFloat accountId st placeRes balanceRes positionsRes ordersRes))
        = (amount st \<noteq> [] \<and> js_gt (parseFloat (amount st)) (Fin 0)
           \<and> (form_orderType st = Limit \<longrightarrow>
                 form_price st \<noteq> [] \<and> js_gt (parseFloat (form_price st)) (Fin 0)))
     \<and> list_ex is_network
          (snd (handleSubmitOrder0 parseFloat st placeRes balanceRes positionsRes ordersRes))
        = (amount st \<noteq> [] \<and> js_gt (parseFloat (amount st)) (Fin 0)
           \<and> (form_orderType st = Limit \<longrightarrow>
                 form_price st \<noteq> [] \<and> js_gt (parseFloat (form_price st)) (Fin 0)))
     \<and> list_ex is_network (snd (handlePlaceOrder parseFloat onRefresh pn placeRes))
        = (panel_quantity pn \<noteq> [] \<and> js_gt (parseFloat (panel_quantity pn)) (Fin 0)
           \<and> (panel_orderType pn = Limit \<longrightarrow>
                 panel_price pn \<noteq> [] \<and> js_gt (parseFloat (panel_price pn)) (Fin 0)))
     \<and> (amount st \<noteq> [] \<and> js_gt (parseFloat (amount st)) (Fin 0)
           \<and> (form_orderType st = Limit \<longrightarrow>
                 form_price st \<noteq> [] \<and> js_gt (parseFloat (form_price st)) (Fin 0)) \<longrightarrow>
         hd (snd (handleSubmitOrder parseFloat accountId st placeRes balanceRes positionsRes
                    ordersRes)) =
           Api (PlaceOKXOrder (Some accountId)
             \<lparr>symbol = form_symbol st, side = form_side st,
              quantity = parseFloat (amount st), orderType = form_orderType st,
              price = (if form_orderType st = Limit then Some (parseFloat (form_price st))
                       else None),
              posSide = Some (form_posSide st)\<rparr>)
         \<and> hd (snd (handleSubmitOrder0 parseFloat st placeRes balanceRes positionsRes
                    ordersRes)) =
           Api (PlaceOKXOrder None
             \<lparr>symbol = form_symbol st, side = form_side st,
              quantity = parseFloat (amount st), orderType = form_orderType st,
              price = (if form_orderType st = Limit then Some (parseFloat (form_price st))
                       else None),
              posSide = None\<rparr>))
     \<and> (panel_quantity pn \<noteq> [] \<and> js_gt (parseFloat (panel_quantity pn)) (Fin 0)
           \<and> (panel_orderType pn = Limit \<longrightarrow>
                 panel_price pn \<noteq> [] \<and> js_gt (parseFloat (panel_price pn)) (Fin 0)) \<longrightarrow>
         hd (snd (handlePlaceOrder parseFloat onRefresh pn placeRes)) =
           Fetch (POST ''/api/okx-account/order'' (panel_body parseFloat pn)))"
proof -
  have form_ok: "(amount st \<noteq> [] \<and> \<not> js_le (parseFloat (amount st)) (Fin 0)
      \<and> (form_orderType st = Limit \<longrightarrow>
            form_price st \<noteq> [] \<and> \<not> js_le (parseFloat (form_price st)) (Fin 0)))
     = (amount st \<noteq> [] \<and> js_gt (parseFloat (amount st)) (Fin 0)
           \<and> (form_orderType st = Limit \<longrightarrow>
                 form_price st \<noteq> [] \<and> js_gt (parseFloat (form_price st)) (Fin 0)))"
    using number_field_gt[OF assms(1)] number_field_gt[OF assms(2)]
      js_gt_not_le[of "parseFloat (amount st)"] js_gt_not_le[of "parseFloat (form_price st)"]
    by blast
  have panel_ok: "(panel_quantity pn \<noteq> [] \<and> \<not> js_le (parseFloat (panel_quantity pn)) (Fin 0)
      \<and> (panel_orderType pn = Limit \<longrightarrow>
            panel_price pn \<noteq> [] \<and> \<not> js_le (parseFloat (panel_price pn)) (Fin 0)))
     = (panel_quantity pn \<noteq> [] \<and> js_gt (parseFloat (panel_quantity pn)) (Fin 0)
           \<and> (panel_orderType pn = Limit \<longrightarrow>
                 panel_price pn \<noteq> [] \<and> js_gt (parseFloat (panel_price pn)) (Fin 0)))"
    using number_field_gt[OF assms(3)] number_field_gt[OF assms(4)]
      js_gt_not_le[of "parseFloat (panel_quantity pn)"]
      js_gt_not_le[of "parseFloat (panel_price pn)"]
    by blast
  show ?thesis
  proof (intro conjI impI)
    assume "js_le (parseFloat (amount st)) (Fin 0)
            \<or> (form_orderType st = Limit \<and> js_le (parseFloat (form_price st)) (Fin 0))"
    then show "\<exists>m. handleSubmitOrder parseFloat accountId st placeRes balanceRes positionsRes
                     ordersRes = (st, [ToastError m])
              \<and> handleSubmitOrder0 parseFloat st placeRes balanceRes positionsRes ordersRes
                 = (st, [ToastError m])"
      using handleSubmitOrder_rejects[of st parseFloat accountId placeRes balanceRes
          positionsRes ordersRes]
      by blast
  next
    assume "js_le (parseFloat (panel_quantity pn)) (Fin 0)
            \<or> (panel_orderType pn = Limit \<and> js_le (parseFloat (panel_price pn)) (Fin 0))"
    then show "\<exists>m. handlePlaceOrder parseFloat onRefresh pn placeRes = (pn, [ToastError m])"
      using handlePlaceOrder_rejects[of pn parseFloat onRefresh placeRes] by blast
  next
    show "list_ex is_network
          (snd (handleSubmitOrder parseFloat accountId st placeRes balanceRes positionsRes ordersRes))
        = (amount st \<noteq> [] \<and> js_gt (parseFloat (amount st)) (Fin 0)
           \<and> (form_orderType st = Limit \<longrightarrow>
                 form_price st \<noteq> [] \<and> js_gt (parseFloat (form_price st)) (Fin 0)))"
      by (simp only: network_only_after_checks(1) form_ok)
  next
    show "list_ex is_network
          (snd (handleSubmitOrder0 parseFloat st placeRes balanceRes positionsRes ordersRes))
        = (amount st \<noteq> [] \<and> js_gt (parseFloat (amount st)) (Fin 0)
           \<and> (form_orderType st = Limit \<longrightarrow>
                 form_price st \<noteq> [] \<and> js_gt (parseFloat (form_price st)) (Fin 0)))"
      by (simp only: network_only_after_checks(2) form_ok)
  next
    show "list_ex is_network (snd (handlePlaceOrder parseFloat onRefresh pn placeRes))
        = (panel_quantity pn \<noteq> [] \<and> js_gt (parseFloat (panel_quantity pn)) (Fin 0)
           \<and> (panel_orderType pn = Limit \<longrightarrow>
                 panel_price pn \<noteq> [] \<and> js_gt (parseFloat (panel_price pn)) (Fin 0)))"
      by (simp only: network_only_after_checks(3) panel_ok)
  next
    assume ok: "amount st \<noteq> [] \<and> js_gt (parseFloat (amount st)) (Fin 0)
           \<and> (form_orderType st = Limit \<longrightarrow>
                 form_price st \<noteq> [] \<and> js_gt (parseFloat (form_price st)) (Fin 0))"
    then have pass: "amount st \<noteq> []" "\<not> js_le (parseFloat (amount st)) (Fin 0)"
      "form_orderType st = Limit \<longrightarrow>
           form_price st \<noteq> [] \<and> \<not> js_le (parseFloat (form_price st)) (Fin 0)"
      using form_ok by blast+
    show "hd (snd (handleSubmitOrder parseFloat accountId st placeRes balanceRes positionsRes
                    ordersRes)) =
           Api (PlaceOKXOrder (Some accountId)
             \<lparr>symbol = form_symbol st, side = form_side st,
              quantity = parseFloat (amount st), orderType = form_orderType st,
              price = (if form_orderType st = Limit then Some (parseFloat (form_price st))
                       else None),
              posSide = Some (form_posSide st)\<rparr>)"
      by (rule handleSubmitOrder_submits(1)[OF pass])
    show "hd (snd (handleSubmitOrder0 parseFloat st placeRes balanceRes positionsRes
                    ordersRes)) =
           Api (PlaceOKXOrder None
             \<lparr>symbol = form_symbol st, side = form_side st,
              quantity = parseFloat (amount st), orderType = form_orderType st,
              price = (if form_orderType st = Limit then Some (parseFloat (form_price st))
                       else None),
              posSide = None\<rparr>)"
      by (rule handleSubmitOrder_submits(2)[OF pass])
  next
    assume ok: "panel_quantity pn \<noteq> [] \<and> js_gt (parseFloat (panel_quantity pn)) (Fin 0)
           \<and> (panel_orderType pn = Limit \<longrightarrow>
                 panel_price pn \<noteq> [] \<and> js_gt (parseFloat (panel_price pn)) (Fin 0))"
    then have pass: "panel_quantity pn \<noteq> []" "\<not> js_le (parseFloat (panel_quantity pn)) (Fin 0)"
      "panel_orderType pn = Limit \<longrightarrow>
           panel_price pn \<noteq> [] \<and> \<not> js_le (parseFloat (panel_price pn)) (Fin 0)"
      using panel_ok by blast+
    show "hd (snd (handlePlaceOrder parseFloat onRefresh pn placeRes)) =
           Fetch (POST ''/api/okx-account/order'' (panel_body parseFloat pn))"
      by (rule handlePlaceOrder_submits(1)[OF pass])
  qed
qed

theorem local_validation_before_submission_witness:
  "number_field (\<lambda>s. if s = ''0'' then Fin 0 else if s = ''0.001'' then Fin (1 / 1000)
             else if s = ''2'' then Fin 2 else NaN) ''2'' \<and> number_field (\<lambda>s. if s = ''0'' then Fin 0 else if s = ''0.001'' then Fin (1 / 1000)
             else if s = ''2'' then Fin 2 else NaN) ''0'' \<and> number_field (\<lambda>s. if s = ''0'' then Fin 0 else if s = ''0.001'' then Fin (1 / 1000)
             else if s = ''2'' then Fin 2 else NaN) []
   \<and> number_field (\<lambda>s. if s = ''0'' then Fin 0 else if s = ''0.001'' then Fin (1 / 1000)
             else if s = ''2'' then Fin 2 else NaN) ''0.001''
   \<and> js_gt ((\<lambda>s. if s = ''0'' then Fin 0 else if s = ''0.001'' then Fin (1 / 1000)
             else if s = ''2'' then Fin 2 else NaN) ''2'') (Fin 0) \<and> js_le ((\<lambda>s. if s = ''0'' then Fin 0 else if s = ''0.001'' then Fin (1 / 1000)
             else if s = ''2'' then Fin 2 else NaN) ''0'') (Fin 0)
   \<and> list_ex is_network
        (snd (handleSubmitOrder (\<lambda>s. if s = ''0'' then Fin 0 else if s = ''0.001'' then Fin (1 / 1000)
             else if s = ''2'' then Fin 2 else NaN) 1 (initial_trading_view\<lparr>amount := ''2''\<rparr>)
               (Rejected []) (Rejected []) (Rejected []) (Rejected [])))
   \<and> hd (snd (handlePlaceOrder (\<lambda>s. if s = ''0'' then Fin 0 else if s = ''0.001'' then Fin (1 / 1000)
             else if s = ''2'' then Fin 2 else NaN) False initial_trading_panel (Rejected [])))
       = Fetch (POST ''/api/okx-account/order''
           [(''symbol'', JString ''BTC-USDT-SWAP''), (''side'', JString ''buy''),
            (''order_type'', JString ''market''), (''quantity'', JNumber (1 / 1000))])
   \<and> \<not> list_ex is_network
        (snd (handleSubmitOrder0 (\<lambda>s. if s = ''0'' then Fin 0 else if s = ''0.001'' then Fin (1 / 1000)
             else if s = ''2'' then Fin 2 else NaN) (initial_trading_view\<lparr>amount := ''0''\<rparr>)
               (Rejected []) (Rejected []) (Rejected []) (Rejected [])))
   \<and> fst (handleSubmitOrder0 (\<lambda>s. if s = ''0'' then Fin 0 else if s = ''0.001'' then Fin (1 / 1000)
             else if s = ''2'' then Fin 2 else NaN) (initial_trading_view\<lparr>amount := ''0''\<rparr>)
               (Rejected []) (Rejected []) (Rejected []) (Rejected []))
       = initial_trading_view\<lparr>amount := ''0''\<rparr>"
  using local_validation_before_submission[of "(\<lambda>s. if s = ''0'' then Fin 0 else if s = ''0.001'' then Fin (1 / 1000)
             else if s = ''2'' then Fin 2 else NaN)"
      "initial_trading_view\<lparr>amount := ''2''\<rparr>" initial_trading_panel 1
      "Rejected []" "Rejected []" "Rejected []" "Rejected []" False]
    local_validation_before_submission[of "(\<lambda>s. if s = ''0'' then Fin 0 else if s = ''0.001'' then Fin (1 / 1000)
             else if s = ''2'' then Fin 2 else NaN)"
      "initial_trading_view\<lparr>amount := ''0''\<rparr>" initial_trading_panel 1
      "Rejected []" "Rejected []" "Rejected []" "Rejected []" False]
  by (auto simp: number_field_def initial_trading_view_def initial_trading_panel_def
      panel_body_def panel_order_symbol_def)

section \<open>Properties of the account data\<close>

lemma failed_balance_keeps_section:
  "fetchAllData_okx acct st (Fulfilled sr) (Fulfilled (Resp False x)) (Fulfilled p) (Fulfilled os)
     = fetchAllData_okx acct st (Fulfilled sr) (Fulfilled (Resp True (balance st)))
         (Fulfilled p) (Fulfilled os)"
  by (simp add: fetchAllData_okx_def Let_def)

lemma failed_positions_keeps_section:
  "fetchAllData_okx acct st (Fulfilled sr) (Fulfilled b) (Fulfilled (Resp False x)) (Fulfilled os)
     = fetchAllData_okx acct st (Fulfilled sr) (Fulfilled b)
         (Fulfilled (Resp True (positions st))) (Fulfilled os)"
  by (simp add: fetchAllData_okx_def Let_def)

lemma failed_orders_keeps_section:
  "fetchAllData_okx acct st (Fulfilled sr) (Fulfilled b) (Fulfilled p) (Fulfilled (Resp False x))
     = fetchAllData_okx acct st (Fulfilled sr) (Fulfilled b) (Fulfilled p)
         (Fulfilled (Resp True (openOrders st)))"
  by (simp add: fetchAllData_okx_def Let_def)

lemma rejected_query_keeps_all:
  assumes "(\<exists>m. sr = Rejected m) \<or> (\<exists>m. b = Rejected m) \<or> (\<exists>m. p = Rejected m)
           \<or> (\<exists>m. os = Rejected m)"
  shows "balance (fst (fetchAllData_okx acct st sr b p os)) = balance st
     \<and> positions (fst (fetchAllData_okx acct st sr b p os)) = positions st
     \<and> openOrders (fst (fetchAllData_okx acct st sr b p os)) = openOrders st
     \<and> ToastError ''Failed to load OKX account data''
         \<in> set (snd (fetchAllData_okx acct st sr b p os))"
  using assms
  by (auto simp: fetchAllData_okx_def Let_def split: outcome.splits if_splits)

lemma fulfilled_queries_effects:
  "snd (fetchAllData_okx acct st (Fulfilled sr) (Fulfilled b) (Fulfilled p) (Fulfilled os)) =
     [Api (GetOKXAccountSummary (Some acct)), Api (GetOKXBalance (Some acct)),
      Api (GetOKXPositions (Some acct)), Api (GetOKXOpenOrders (Some acct))]"
  by (simp add: fetchAllData_okx_def Let_def)

text \<open>
  Claim C5, as the code has it.  The account view has no ``unavailable'' value.
  A section query that answers \<open>success = false\<close> leaves its section as it was
  before the call (the empty list on first load): the outcome is the one of a
  successful answer that carries the previous value, and nothing is reported
  besides the four calls.  When a query throws, none of the three sections is
  changed and one error toast is shown.
\<close>

theorem failed_section_keeps_previous_value:
  "fetchAllData_okx acct st (Fulfilled sr) (Fulfilled (Resp False x1)) (Fulfilled p) (Fulfilled os)
     = fetchAllData_okx acct st (Fulfilled sr) (Fulfilled (Resp True (balance st)))
         (Fulfilled p) (Fulfilled os)
   \<and> fetchAllData_okx acct st (Fulfilled sr) (Fulfilled b) (Fulfilled (Resp False x2)) (Fulfilled os)
     = fetchAllData_okx acct st (Fulfilled sr) (Fulfilled b)
         (Fulfilled (Resp True (positions st))) (Fulfilled os)
   \<and> fetchAllData_okx acct st (Fulfilled sr) (Fulfilled b) (Fulfilled p) (Fulfilled (Resp False x3))
     = fetchAllData_okx acct st (Fulfilled sr) (Fulfilled b) (Fulfilled p)
         (Fulfilled (Resp True (openOrders st)))
   \<and> snd (fetchAllData_okx acct st (Fulfilled sr) (Fulfilled b) (Fulfilled p) (Fulfilled os)) =
       [Api (GetOKXAccountSummary (Some acct)), Api (GetOKXBalance (Some acct)),
        Api (GetOKXPositions (Some acct)), Api (GetOKXOpenOrders (Some acct))]
   \<and> ((\<exists>m. sr' = Rejected m) \<or> (\<exists>m. b' = Rejected m) \<or> (\<exists>m. p' = Rejected m)
        \<or> (\<exists>m. os' = Rejected m) \<longrightarrow>
       balance (fst (fetchAllData_okx acct st sr' b' p' os')) = balance st
       \<and> positions (fst (fetchAllData_okx acct st sr' b' p' os')) = positions st
       \<and> openOrders (fst (fetchAllData_okx acct st sr' b' p' os')) = openOrders st
       \<and> ToastError ''Failed to load OKX account data''
           \<in> set (snd (fetchAllData_okx acct st sr' b' p' os')))"
proof (intro conjI impI)
  show "fetchAllData_okx acct st (Fulfilled sr) (Fulfilled (Resp False x1)) (Fulfilled p)
          (Fulfilled os)
        = fetchAllData_okx acct st (Fulfilled sr) (Fulfilled (Resp True (balance st)))
            (Fulfilled p) (Fulfilled os)"
    by (rule failed_balance_keeps_section)
  show "fetchAllData_okx acct st (Fulfilled sr) (Fulfilled b) (Fulfilled (Resp False x2))
          (Fulfilled os)
        = fetchAllData_okx acct st (Fulfilled sr) (Fulfilled b)
            (Fulfilled (Resp True (positions st))) (Fulfilled os)"
    by (rule failed_positions_keeps_section)
  show "fetchAllData_okx acct st (Fulfilled sr) (Fulfilled b) (Fulfilled p)
          (Fulfilled (Resp False x3))
        = fetchAllData_okx acct st (Fulfilled sr) (Fulfilled b) (Fulfilled p)
            (Fulfilled (Resp True (openOrders st)))"
    by (rule failed_orders_keeps_section)
  show "snd (fetchAllData_okx acct st (Fulfilled sr) (Fulfilled b) (Fulfilled p) (Fulfilled os)) =
       [Api (GetOKXAccountSummary (Some acct)), Api (GetOKXBalance (Some acct)),
        Api (GetOKXPositions (Some acct)), Api (GetOKXOpenOrders (Some acct))]"
    by (rule fulfilled_queries_effects)
next
  assume rej: "(\<exists>m. sr' = Rejected m) \<or> (\<exists>m. b' = Rejected m) \<or> (\<exists>m. p' = Rejected m)
        \<or> (\<exists>m. os' = Rejected m)"
  note keep = rejected_query_keeps_all[OF rej, of acct st]
  show "balance (fst (fetchAllData_okx acct st sr' b' p' os')) = balance st"
    using keep by simp
  show "positions (fst (fetchAllData_okx acct st sr' b' p' os')) = positions st"
    using keep by simp
  show "openOrders (fst (fetchAllData_okx acct st sr' b' p' os')) = openOrders st"
    using keep by simp
  show "ToastError ''Failed to load OKX account data''
           \<in> set (snd (fetchAllData_okx acct st sr' b' p' os'))"
    using keep by simp
qed

theorem failed_section_keeps_previous_value_witness:
  "(\<exists>m. (Rejected ''HTTP error! status: 500'' :: OKXPosition list api_response outcome)
         = Rejected m)
   \<and> positions (fst (fetchAllData_okx 1 initial_account_view
        (Fulfilled (Resp False \<lparr>total_balance_usdt = Fin 0, positions_value = Fin 0,
           unrealized_pnl = Fin 0, positions_count = Fin 0, open_orders_count = Fin 0,
           free_usdt = Fin 0, used_usdt = Fin 0\<rparr>))
        (Fulfilled (Resp True [])) (Rejected ''HTTP error! status: 500'')
        (Fulfilled (Resp True [])))) = []
   \<and> ToastError ''Failed to load OKX account data''
        \<in> set (snd (fetchAllData_okx 1 initial_account_view
        (Fulfilled (Resp False \<lparr>total_balance_usdt = Fin 0, positions_value = Fin 0,
           unrealized_pnl = Fin 0, positions_count = Fin 0, open_orders_count = Fin 0,
           free_usdt = Fin 0, used_usdt = Fin 0\<rparr>))
        (Fulfilled (Resp True [])) (Rejected ''HTTP error! status: 500'')
        (Fulfilled (Resp True []))))"
  using failed_section_keeps_previous_value[of 1 initial_account_view _ _ _ _ _ _ _
      "Fulfilled (Resp False \<lparr>total_balance_usdt = Fin 0, positions_value = Fin 0,
           unrealized_pnl = Fin 0, positions_count = Fin 0, open_orders_count = Fin 0,
           free_usdt = Fin 0, used_usdt = Fin 0\<rparr>)"
      "Fulfilled (Resp True [])" "Rejected ''HTTP error! status: 500''"
      "Fulfilled (Resp True [])"]
  by (simp add: initial_account_view_def)

theorem failed_positions_counterexample:
  "fetchAllData_okx 1 initial_account_view
      (Fulfilled (Resp False \<lparr>total_balance_usdt = Fin 0, positions_value = Fin 0,
         unrealized_pnl = Fin 0, positions_count = Fin 0, open_orders_count = Fin 0,
         free_usdt = Fin 0, used_usdt = Fin 0\<rparr>))
      (Fulfilled (Resp True [])) (Fulfilled (Resp False [])) (Fulfilled (Resp True []))
   = fetchAllData_okx 1 initial_account_view
      (Fulfilled (Resp False \<lparr>total_balance_usdt = Fin 0, positions_value = Fin 0,
         unrealized_pnl = Fin 0, positions_count = Fin 0, open_orders_count = Fin 0,
         free_usdt = Fin 0, used_usdt = Fin 0\<rparr>))
      (Fulfilled (Resp True [])) (Fulfilled (Resp True [])) (Fulfilled (Resp True []))
   \<and> positions (fst (fetchAllData_okx 1 initial_account_view
      (Fulfilled (Resp False \<lparr>total_balance_usdt = Fin 0, positions_value = Fin 0,
         unrealized_pnl = Fin 0, positions_count = Fin 0, open_orders_count = Fin 0,
         free_usdt = Fin 0, used_usdt = Fin 0\<rparr>))
      (Fulfilled (Resp True [])) (Fulfilled (Resp False [])) (Fulfilled (Resp True []))))
     = []"
  by (simp add: fetchAllData_okx_def Let_def initial_account_view_def)

section \<open>Properties of the history queries\<close>

lemma fetchAllData_no_history:
  "\<not> list_ex is_history_call (snd (fetchAllData a st b p os))"
  by (auto simp: fetchAllData_def fetchAllData_settle_def fetchAllData_calls_def Let_def
      split: outcome.splits prod.splits)

lemma fetchAllData_okx_no_history:
  "\<not> list_ex is_history_call (snd (fetchAllData_okx a st sr b p os))"
  by (auto simp: fetchAllData_okx_def Let_def split: outcome.splits)

text \<open>
  Each history fetch, whole: nothing when the cached list is not empty and the
  fetch is not forced, and otherwise one query, whose answer is stored when it
  reports success.
\<close>

lemma fetchOrderHistory_cases:
  "fetchOrderHistory acct force cached tv hres =
     (if cached \<noteq> [] \<and> \<not> force then (tv, [])
      else case hres of
             Fulfilled r \<Rightarrow>
               ((if success r then tv\<lparr>orderHistory := payload r\<rparr> else tv),
                [Api (GetOKXOrderHistory (Some acct))])
           | Rejected m \<Rightarrow>
               (tv, [Api (GetOKXOrderHistory (Some acct)),
                     ConsoleError ''Failed to fetch order history:'',
                     ToastError ''Failed to load order history'']))"
  by (simp add: fetchOrderHistory_def fetchOrderHistory_starts_def fetchOrderHistory_settle_def
      split: outcome.splits)

lemma fetchTrades_cases:
  "fetchTrades acct force cached tv tres =
     (if cached \<noteq> [] \<and> \<not> force then (tv, [])
      else case tres of
             Fulfilled r \<Rightarrow>
               ((if success r then tv\<lparr>trades := payload r\<rparr> else tv),
                [Api (GetOKXTrades (Some acct))])
           | Rejected m \<Rightarrow>
               (tv, [Api (GetOKXTrades (Some acct)),
                     ConsoleError ''Failed to fetch trades:'',
                     ToastError ''Failed to load trade history'']))"
  by (simp add: fetchTrades_def fetchTrades_starts_def fetchTrades_settle_def
      split: outcome.splits)

lemma fetchOrderHistory_okx_cases:
  "fetchOrderHistory_okx acct av hres =
     (if orderHistory av \<noteq> [] then (av, [])
      else case hres of
             Fulfilled r \<Rightarrow>
               ((if success r then av\<lparr>orderHistory := payload r\<rparr> else av),
                [Api (GetOKXOrderHistory (Some acct))])
           | Rejected m \<Rightarrow>
               (av, [Api (GetOKXOrderHistory (Some acct)),
                     ConsoleError ''Failed to fetch order history:'']))"
  by (simp add: fetchOrderHistory_okx_def split: outcome.splits)

lemma fetchTrades_okx_cases:
  "fetchTrades_okx acct av tres =
     (if trades av \<noteq> [] then (av, [])
      else case tres of
             Fulfilled r \<Rightarrow>
               ((if success r then av\<lparr>trades := payload r\<rparr> else av),
                [Api (GetOKXTrades (Some acct))])
           | Rejected m \<Rightarrow>
               (av, [Api (GetOKXTrades (Some acct)),
                     ConsoleError ''Failed to fetch trades:'']))"
  by (simp add: fetchTrades_okx_def split: outcome.splits)

lemma onValueChange_tabs:
  "onValueChange acct v tv hres tres =
     (if v = ''history'' then fetchOrderHistory acct False (orderHistory tv) tv hres
      else if v = ''trades'' then fetchTrades acct False (trades tv) tv tres
      else (tv, []))"
  "onValueChange_okx acct v av hres tres =
     (if v = ''history'' then fetchOrderHistory_okx acct av hres
      else if v = ''trades'' then fetchTrades_okx acct av tres
      else (av, []))"
  by (simp_all add: onValueChange_def onValueChange_okx_def split: prod.splits)

text \<open>
  \<open>handleRefresh\<close> of the trading view: what it starts, and what the cached
  lists hold at the end.
\<close>

lemma handleRefresh_starts:
  "take 6 (snd (handleRefresh acct tv b p os hres tres)) =
     [Api (GetOKXBalance (Some acct)), Api (GetOKXPositions (Some acct)),
      Api (GetOKXOpenOrders (Some acct)), Api (GetOKXOrderHistory (Some acct)),
      Api (GetOKXTrades (Some acct)), ToastSuccess ''Refreshing data...'']"
  by (simp add: handleRefresh_def fetchOrderHistory_starts_def fetchTrades_starts_def
      fetchAllData_calls_def Let_def split: prod.splits)

lemma fetchAllData_settle_keeps_history:
  "orderHistory (fst (fetchAllData_settle st b p os)) = orderHistory st
   \<and> trades (fst (fetchAllData_settle st b p os)) = trades st"
  by (auto simp: fetchAllData_settle_def Let_def split: outcome.splits)

lemma handleRefresh_history:
  "orderHistory (fst (handleRefresh acct tv b p os hres tres)) =
     (case hres of Fulfilled r \<Rightarrow> if success r then payload r else [] | Rejected _ \<Rightarrow> [])
   \<and> trades (fst (handleRefresh acct tv b p os hres tres)) =
     (case tres of Fulfilled r \<Rightarrow> if success r then payload r else [] | Rejected _ \<Rightarrow> [])"
  using fetchAllData_settle_keeps_history[of
      "tv\<lparr>orderHistory := [], trades := [], refreshing := True\<rparr>" b p os]
  by (auto simp: handleRefresh_def Let_def fetchOrderHistory_starts_def fetchTrades_starts_def
      fetchOrderHistory_settle_def fetchTrades_settle_def
      split: outcome.splits prod.splits)

lemma handleRefresh_okx_keeps_history:
  "orderHistory (fst (handleRefresh_okx acct av sr b p os)) = orderHistory av
   \<and> trades (fst (handleRefresh_okx acct av sr b p os)) = trades av
   \<and> \<not> list_ex is_history_call (snd (handleRefresh_okx acct av sr b p os))"
  by (auto simp: handleRefresh_okx_def fetchAllData_okx_def Let_def
      split: outcome.splits prod.splits)

text \<open>
  Claim C6, as the code has it.  \<open>fetchAllData\<close> of either view never asks for
  the order history or the trades.  A change of tab asks for the order history
  when the new tab is the history tab, for the trades when it is the trades tab,
  and for nothing otherwise.  A history request makes no network call and leaves
  the state unchanged exactly when its cached list is not empty and it is not
  forced; in every other case, also after an earlier answer that was empty, it
  makes one query and stores the answer if that reports success.  \<open>handleRefresh\<close>
  of the trading view starts the three section queries and both history queries
  whatever is cached, and afterwards each cached list holds what the new answer
  carried, or nothing.  \<open>handleRefresh\<close> of the account view asks for no history
  and leaves the cached lists as they are.
\<close>

theorem history_is_lazy:
  "\<not> list_ex is_history_call (snd (fetchAllData a (st :: trading_view) b p os))
   \<and> \<not> list_ex is_history_call (snd (fetchAllData_okx acct av sr b p os))
   \<and> onValueChange acct v tv hres tres =
       (if v = ''history'' then fetchOrderHistory acct False (orderHistory tv) tv hres
        else if v = ''trades'' then fetchTrades acct False (trades tv) tv tres
        else (tv, []))
   \<and> onValueChange_okx acct v av hres tres =
       (if v = ''history'' then fetchOrderHistory_okx acct av hres
        else if v = ''trades'' then fetchTrades_okx acct av tres
        else (av, []))
   \<and> fetchOrderHistory acct force cached tv hres =
       (if cached \<noteq> [] \<and> \<not> force then (tv, [])
        else case hres of
               Fulfilled r \<Rightarrow>
                 ((if success r then tv\<lparr>orderHistory := payload r\<rparr> else tv),
                  [Api (GetOKXOrderHistory (Some acct))])
             | Rejected m \<Rightarrow>
                 (tv, [Api (GetOKXOrderHistory (Some acct)),
                       ConsoleError ''Failed to fetch order history:'',
                       ToastError ''Failed to load order history'']))
   \<and> fetchTrades acct force cached_trades tv tres =
       (if cached_trades \<noteq> [] \<and> \<not> force then (tv, [])
        else case tres of
               Fulfilled r \<Rightarrow>
                 ((if success r then tv\<lparr>trades := payload r\<rparr> else tv),
                  [Api (GetOKXTrades (Some acct))])
             | Rejected m \<Rightarrow>
                 (tv, [Api (GetOKXTrades (Some acct)),
                       ConsoleError ''Failed to fetch trades:'',
                       ToastError ''Failed to load trade history'']))
   \<and> fetchOrderHistory_okx acct av hres =
       (if orderHistory av \<noteq> [] then (av, [])
        else case hres of
               Fulfilled r \<Rightarrow>
                 ((if success r then av\<lparr>orderHistory := payload r\<rparr> else av),
                  [Api (GetOKXOrderHistory (Some acct))])
             | Rejected m \<Rightarrow>
                 (av, [Api (GetOKXOrderHistory (Some acct)),
                       ConsoleError ''Failed to fetch order history:'']))
   \<and> fetchTrades_okx acct av tres =
       (if trades av \<noteq> [] then (av, [])
        else case tres of
               Fulfilled r \<Rightarrow>
                 ((if success r then av\<lparr>trades := payload r\<rparr> else av),
                  [Api (GetOKXTrades (Some acct))])
             | Rejected m \<Rightarrow>
                 (av, [Api (GetOKXTrades (Some acct)),
                       ConsoleError ''Failed to fetch trades:'']))
   \<and> take 6 (snd (handleRefresh acct tv b p os hres tres)) =
       [Api (GetOKXBalance (Some acct)), Api (GetOKXPositions (Some acct)),
        Api (GetOKXOpenOrders (Some acct)), Api (GetOKXOrderHistory (Some acct)),
        Api (GetOKXTrades (Some acct)), ToastSuccess ''Refreshing data...'']
   \<and> orderHistory (fst (handleRefresh acct tv b p os hres tres)) =
       (case hres of Fulfilled r \<Rightarrow> if success r then payload r else [] | Rejected _ \<Rightarrow> [])
   \<and> trades (fst (handleRefresh acct tv b p os hres tres)) =
       (case tres of Fulfilled r \<Rightarrow> if success r then payload r else [] | Rejected _ \<Rightarrow> [])
   \<and> orderHistory (fst (handleRefresh_okx acct av sr b p os)) = orderHistory av
   \<and> trades (fst (handleRefresh_okx acct av sr b p os)) = trades av
   \<and> \<not> list_ex is_history_call (snd (handleRefresh_okx acct av sr b p os))"
proof (intro conjI)
  show "\<not> list_ex is_history_call (snd (fetchAllData a st b p os))"
    by (rule fetchAllData_no_history)
  show "\<not> list_ex is_history_call (snd (fetchAllData_okx acct av sr b p os))"
    by (rule fetchAllData_okx_no_history)
  show "onValueChange acct v tv hres tres =
       (if v = ''history'' then fetchOrderHistory acct False (orderHistory tv) tv hres
        else if v = ''trades'' then fetchTrades acct False (trades tv) tv tres
        else (tv, []))"
    by (rule onValueChange_tabs(1))
  show "onValueChange_okx acct v av hres tres =
       (if v = ''history'' then fetchOrderHistory_okx acct av hres
        else if v = ''trades'' then fetchTrades_okx acct av tres
        else (av, []))"
    by (rule onValueChange_tabs(2))
  show "take 6 (snd (handleRefresh acct tv b p os hres tres)) =
       [Api (GetOKXBalance (Some acct)), Api (GetOKXPositions (Some acct)),
        Api (GetOKXOpenOrders (Some acct)), Api (GetOKXOrderHistory (Some acct)),
        Api (GetOKXTrades (Some acct)), ToastSuccess ''Refreshing data...'']"
    by (rule handleRefresh_starts)
qed (simp_all only: fetchOrderHistory_cases fetchTrades_cases fetchOrderHistory_okx_cases
      fetchTrades_okx_cases handleRefresh_history handleRefresh_okx_keeps_history
      not_False_eq_True)

theorem history_is_lazy_witness:
  "(let tv = initial_trading_view\<lparr>orderHistory := [\<lparr>ord_id = ''1'', clientOrderId = None, ord_symbol = ''BTC/USDT:USDT'',
          ord_type = ''market'', ord_side = ''buy'', ord_price = Fin 0, ord_amount = Fin 1,
          filled = Fin 1, remaining = Fin 0, status = ''closed'', ord_timestamp = Fin 0,
          ord_datetime = []\<rparr>]\<rparr>
    in fetchOrderHistory 1 False (orderHistory tv) tv (Rejected []) = (tv, [])
       \<and> onValueChange 1 ''history'' tv (Rejected []) (Rejected []) = (tv, [])
       \<and> onValueChange 1 ''balance'' tv (Fulfilled (Resp True [])) (Rejected []) = (tv, [])
       \<and> orderHistory (fst (handleRefresh 1 tv (Rejected []) (Rejected []) (Rejected [])
                               (Fulfilled (Resp True [])) (Rejected []))) = [])
   \<and> onValueChange 1 ''history'' initial_trading_view (Fulfilled (Resp True [\<lparr>ord_id = ''1'', clientOrderId = None, ord_symbol = ''BTC/USDT:USDT'',
          ord_type = ''market'', ord_side = ''buy'', ord_price = Fin 0, ord_amount = Fin 1,
          filled = Fin 1, remaining = Fin 0, status = ''closed'', ord_timestamp = Fin 0,
          ord_datetime = []\<rparr>]))
        (Rejected [])
      = (initial_trading_view\<lparr>orderHistory := [\<lparr>ord_id = ''1'', clientOrderId = None, ord_symbol = ''BTC/USDT:USDT'',
          ord_type = ''market'', ord_side = ''buy'', ord_price = Fin 0, ord_amount = Fin 1,
          filled = Fin 1, remaining = Fin 0, status = ''closed'', ord_timestamp = Fin 0,
          ord_datetime = []\<rparr>]\<rparr>, [Api (GetOKXOrderHistory (Some 1))])"
  using history_is_lazy[of None initial_trading_view "Rejected []" "Rejected []" "Rejected []"
      1 initial_account_view "Rejected []" "''history''"
      "initial_trading_view\<lparr>orderHistory := [\<lparr>ord_id = ''1'', clientOrderId = None, ord_symbol = ''BTC/USDT:USDT'',
          ord_type = ''market'', ord_side = ''buy'', ord_price = Fin 0, ord_amount = Fin 1,
          filled = Fin 1, remaining = Fin 0, status = ''closed'', ord_timestamp = Fin 0,
          ord_datetime = []\<rparr>]\<rparr>" "Rejected []" "Rejected []"
      False "[\<lparr>ord_id = ''1'', clientOrderId = None, ord_symbol = ''BTC/USDT:USDT'',
          ord_type = ''market'', ord_side = ''buy'', ord_price = Fin 0, ord_amount = Fin 1,
          filled = Fin 1, remaining = Fin 0, status = ''closed'', ord_timestamp = Fin 0,
          ord_datetime = []\<rparr>]" "[]"]
    history_is_lazy[of None initial_trading_view "Rejected []" "Rejected []" "Rejected []"
      1 initial_account_view "Rejected []" "''balance''"
      "initial_trading_view\<lparr>orderHistory := [\<lparr>ord_id = ''1'', clientOrderId = None, ord_symbol = ''BTC/USDT:USDT'',
          ord_type = ''market'', ord_side = ''buy'', ord_price = Fin 0, ord_amount = Fin 1,
          filled = Fin 1, remaining = Fin 0, status = ''closed'', ord_timestamp = Fin 0,
          ord_datetime = []\<rparr>]\<rparr>" "Fulfilled (Resp True [])"
      "Rejected []" False "[\<lparr>ord_id = ''1'', clientOrderId = None, ord_symbol = ''BTC/USDT:USDT'',
          ord_type = ''market'', ord_side = ''buy'', ord_price = Fin 0, ord_amount = Fin 1,
          filled = Fin 1, remaining = Fin 0, status = ''closed'', ord_timestamp = Fin 0,
          ord_datetime = []\<rparr>]" "[]"]
    history_is_lazy[of None initial_trading_view "Rejected []" "Rejected []" "Rejected []"
      1 initial_account_view "Rejected []" "''history''"
      initial_trading_view "Fulfilled (Resp True [\<lparr>ord_id = ''1'', clientOrderId = None, ord_symbol = ''BTC/USDT:USDT'',
          ord_type = ''market'', ord_side = ''buy'', ord_price = Fin 0, ord_amount = Fin 1,
          filled = Fin 1, remaining = Fin 0, status = ''closed'', ord_timestamp = Fin 0,
          ord_datetime = []\<rparr>])" "Rejected []" False "[]" "[]"]
  by (simp add: Let_def initial_trading_view_def)

theorem empty_history_refetched_counterexample:
  "fst (onValueChange 1 ''history'' initial_trading_view (Fulfilled (Resp True []))
          (Rejected []))
     = initial_trading_view
   \<and> snd (onValueChange 1 ''history''
         (fst (onValueChange 1 ''history'' initial_trading_view (Fulfilled (Resp True []))
                 (Rejected [])))
         (Fulfilled (Resp True [])) (Rejected []))
     = [Api (GetOKXOrderHistory (Some 1))]"
  by (simp add: onValueChange_def fetchOrderHistory_def fetchOrderHistory_starts_def
      fetchOrderHistory_settle_def initial_trading_view_def)

section \<open>Properties of the parts known from the specification\<close>

lemma supported_roundtrip:
  "\<forall>s \<in> set supported_symbols. Option.bind (toWire s) toCanonical = Some s"
  by code_simp

text \<open>
  Claim C3.  On every supported symbol the translation to the wire form is
  defined and the translation back returns the symbol, so translating there, back
  and there again gives the wire form; two supported symbols with the same wire
  form are equal.
\<close>

theorem symbol_translation_roundtrip:
  assumes "s \<in> set supported_symbols"
  shows "toWire s \<noteq> None
     \<and> Option.bind (toWire s) toCanonical = Some s
     \<and> Option.bind (Option.bind (toWire s) toCanonical) toWire = toWire s
     \<and> (\<forall>t \<in> set supported_symbols. toWire t = toWire s \<longrightarrow> t = s)"
proof -
  have inv: "Option.bind (toWire s) toCanonical = Some s"
    using assms supported_roundtrip by blast
  then have dfd: "toWire s \<noteq> None"
    by (cases "toWire s") auto
  have inj: "t = s" if "t \<in> set supported_symbols" and "toWire t = toWire s" for t
  proof -
    have "Option.bind (toWire t) toCanonical = Some t"
      using that(1) supported_roundtrip by blast
    then have "Option.bind (toWire s) toCanonical = Some t"
      by (simp only: that(2))
    with inv have "Some t = Some s"
      by (simp only:)
    then show ?thesis
      by (simp only: option.inject)
  qed
  have again: "Option.bind (Option.bind (toWire s) toCanonical) toWire = toWire s"
    by (simp only: inv bind.bind_lunit)
  from inv dfd again inj show ?thesis
    by blast
qed

theorem symbol_translation_roundtrip_witness:
  "''BTC-USDT-SWAP'' \<in> set supported_symbols
   \<and> toWire ''BTC-USDT-SWAP'' = Some ''BTC/USDT:USDT''
   \<and> toCanonical ''BTC/USDT:USDT'' = Some ''BTC-USDT-SWAP''
   \<and> Option.bind (Option.bind (toWire ''BTC-USDT-SWAP'') toCanonical) toWire
       = toWire ''BTC-USDT-SWAP''"
  using symbol_translation_roundtrip[of "''BTC-USDT-SWAP''"]
  by (simp add: supported_symbols_def TRADING_PAIRS_def toWire_def toCanonical_def)

text \<open>
  Claim C4.  Whenever snapshot assembly produces a summary, its used balance is
  its total balance minus its free balance.
\<close>

theorem summary_used_is_total_minus_free:
  assumes "snap_summary (assemble_snapshot valued balances poss orders) = Some s"
  shows "usedBalance s = totalBalance s - freeBalance s"
  using assms
  by (auto simp: assemble_snapshot_def derive_summary_def Let_def split: fetched.splits)

theorem summary_used_is_total_minus_free_witness:
  "snap_summary (assemble_snapshot (\<lambda>c x. x)
      (Available [\<lparr>bal_currency = ''USDT'', bal_total = 100, bal_free = 60, bal_used = 40\<rparr>])
      (Available [\<lparr>position_symbol = ''BTC-USDT-SWAP'', position_notional = - 25,
                   position_unrealizedPnl = 3\<rparr>])
      (Available ([] :: unit list)))
     = Some \<lparr>totalBalance = 125, freeBalance = 60, usedBalance = 65, positionsValue = 25,
             positionsCount = 1, unrealizedPnl_total = 3, openOrdersCount = 0\<rparr>
   \<and> (65 :: rat) = 125 - 60"
  using summary_used_is_total_minus_free[of "\<lambda>c x. x"
      "Available [\<lparr>bal_currency = ''USDT'', bal_total = 100, bal_free = 60, bal_used = 40\<rparr>]"
      "Available [\<lparr>position_symbol = ''BTC-USDT-SWAP'', position_notional = - 25,
                   position_unrealizedPnl = 3\<rparr>]"
      "Available ([] :: unit list)"
      "\<lparr>totalBalance = 125, freeBalance = 60, usedBalance = 65, positionsValue = 25,
             positionsCount = 1, unrealizedPnl_total = 3, openOrdersCount = 0\<rparr>"]
  by (simp add: assemble_snapshot_def derive_summary_def Let_def)

section \<open>Properties of the WebSocket connection\<close>

text \<open>The fields each handler leaves alone.\<close>

lemma send_fields:
  "sockets (send tgt m st) = sockets st" "timers (send tgt m st) = timers st"
  "owner (send tgt m st) = owner st" "closures (send tgt m st) = closures st"
  "WS_SINGLETON (send tgt m st) = WS_SINGLETON st" "next_timer (send tgt m st) = next_timer st"
  by (auto simp: send_def split: option.splits)

lemma sent_fields:
  "sent (setTimeout_connect c d st) = sent st"
  "sent (clearTimeout t st) = sent st"
  "sent (connectWebSocket c thr st) = sent st"
  "sent (cleanup c st) = sent st"
  "sent (handleClose c code st) = sent st"
  "sent (effect_run i thr st) = sent st"
  by (auto simp: setTimeout_connect_def clearTimeout_def connectWebSocket_def cleanup_def
      handleClose_def effect_run_def Let_def split: option.splits)

lemma sockets_fields:
  "sockets (setTimeout_connect c d st) = sockets st"
  "sockets (clearTimeout t st) = sockets st"
  "sockets (cleanup c st) = sockets st"
  "sockets (handleClose c code st) = sockets st"
  "sockets (connectWebSocket c thr st) = (if thr then sockets st else sockets st @ [CONNECTING])"
  by (auto simp: setTimeout_connect_def clearTimeout_def connectWebSocket_def cleanup_def
      handleClose_def Let_def split: option.splits)

lemma sockets_effect:
  "sockets (effect_run i thr st) = (if created st \<and> \<not> thr then sockets st @ [CONNECTING] else sockets st)"
  by (simp add: effect_run_def sockets_fields Let_def)

lemmas ws_fields = send_fields sent_fields sockets_fields

subsection \<open>What the closures keep in every lifecycle\<close>

lemma ws_inv_send: "ws_inv (send tgt m st) = ws_inv st"
  by (simp add: ws_fields ws_inv_def)

lemma ws_inv_clearTimeout: "ws_inv st \<Longrightarrow> ws_inv (clearTimeout t st)"
  by (auto simp: ws_fields ws_inv_def clearTimeout_def distinct_map_filter)

text \<open>Scheduling a reconnect in a closure that owns no open socket and has no timer.\<close>

lemma ws_inv_setTimeout:
  assumes "ws_inv st" "c < length (closures st)"
    and "\<forall>w < length (sockets st). owner st ! w = c \<longrightarrow> sockets st ! w = CLOSED"
    and "c \<notin> (\<lambda>e. fst (snd e)) ` set (timers st)"
  shows "ws_inv (setTimeout_connect c d st)"
  using assms
  by (auto simp: ws_fields ws_inv_def setTimeout_connect_def nth_list_update)

lemma ws_inv_connect:
  assumes "ws_inv st" "c < length (closures st)"
    and "\<forall>w < length (sockets st). owner st ! w = c \<longrightarrow> sockets st ! w = CLOSED"
    and "c \<notin> (\<lambda>e. fst (snd e)) ` set (timers st)"
  shows "ws_inv (connectWebSocket c thr st)"
proof (cases thr)
  case True
  with assms show ?thesis by (simp add: ws_fields connectWebSocket_def ws_inv_setTimeout)
next
  case False
  with assms show ?thesis
    by (auto simp: ws_fields ws_inv_def connectWebSocket_def Let_def nth_append nth_list_update
        less_Suc_eq image_iff)
qed

lemma ws_inv_effect:
  assumes "ws_inv st"
  shows "ws_inv (effect_run i thr st)"
proof -
  let ?new = "\<lparr>ws = WS_SINGLETON st, reconnectTimer = None, instance_of = i\<rparr>"
  let ?st = "st\<lparr>closures := closures st @ [?new]\<rparr>"
  have inv: "ws_inv ?st"
    using assms by (auto simp: ws_fields ws_inv_def nth_append less_Suc_eq)
  have fresh: "\<forall>w < length (sockets ?st). owner ?st ! w = length (closures st)
                 \<longrightarrow> sockets ?st ! w = CLOSED"
    using assms by (auto simp: ws_fields ws_inv_def)
  have notimer: "length (closures st) \<notin> (\<lambda>e. fst (snd e)) ` set (timers ?st)"
    using assms by (auto simp: ws_fields ws_inv_def)
  show ?thesis
  proof (cases "created st")
    case True
    then show ?thesis
      using ws_inv_connect[OF inv _ fresh notimer, of thr]
      by (simp add: ws_fields effect_run_def Let_def)
  next
    case False
    then show ?thesis
      using inv by (simp add: ws_fields effect_run_def Let_def ws_inv_def)
  qed
qed

lemma ws_inv_reopen:
  assumes "ws_inv st" "w < length (sockets st)" "sockets st ! w \<noteq> CLOSED" "r \<noteq> CLOSED"
  shows "ws_inv (st\<lparr>sockets := (sockets st)[w := r]\<rparr>)"
  using assms
  by (auto simp: ws_fields ws_inv_def nth_list_update)

lemma ws_inv_close:
  assumes "ws_inv st" "w < length (sockets st)" "sockets st ! w \<noteq> CLOSED"
  shows "ws_inv (handleClose (owner st ! w) code (st\<lparr>sockets := (sockets st)[w := CLOSED]\<rparr>))"
proof -
  let ?c = "owner st ! w"
  let ?st = "st\<lparr>sockets := (sockets st)[w := CLOSED]\<rparr>"
  have inv: "ws_inv ?st"
    using assms by (auto simp: ws_fields ws_inv_def nth_list_update)
  have c: "?c < length (closures st)"
    using assms by (auto simp: ws_fields ws_inv_def)
  have mine: "ws (closures st ! ?c) = Some w"
    using assms by (auto simp: ws_fields ws_inv_def)
  have other: "sockets st ! v = CLOSED"
    if "v < length (sockets st)" "owner st ! v = ?c" "v \<noteq> w" for v
  proof (rule ccontr)
    assume "sockets st ! v \<noteq> CLOSED"
    with assms(1) that(1) have "ws (closures st ! (owner st ! v)) = Some v"
      by (simp add: ws_fields ws_inv_def)
    with mine that(2,3) show False by (simp add: ws_fields)
  qed
  have closed: "\<forall>v < length (sockets ?st). owner ?st ! v = ?c \<longrightarrow> sockets ?st ! v = CLOSED"
  proof (intro allI impI)
    fix v
    assume v: "v < length (sockets ?st)" "owner ?st ! v = ?c"
    show "sockets ?st ! v = CLOSED"
    proof (cases "v = w")
      case True
      with assms(2) show ?thesis by (simp add: ws_fields)
    next
      case False
      with v other[of v] show ?thesis by (simp add: ws_fields)
    qed
  qed
  have notimer: "?c \<notin> (\<lambda>e. fst (snd e)) ` set (timers ?st)"
    using assms by (auto simp: ws_fields ws_inv_def)
  let ?st1 = "?st\<lparr>WS_SINGLETON := None\<rparr>"
  let ?i = "instance_of (closures st ! ?c)"
  let ?st2 = "if wsRef ?st1 ?i = ws (closures ?st1 ! ?c)
              then ?st1\<lparr>wsRef := (wsRef ?st1)(?i := None)\<rparr> else ?st1"
  have inv2: "ws_inv ?st2"
    using inv by (simp add: ws_fields ws_inv_def)
  have "ws_inv (setTimeout_connect ?c 3000 ?st2)"
    using ws_inv_setTimeout[OF inv2, of ?c 3000] c closed notimer by (simp add: ws_fields)
  with inv2 show ?thesis
    by (simp add: ws_fields handleClose_def Let_def)
qed

lemma ws_inv_fire:
  assumes "ws_inv st" "filter (\<lambda>e. fst e = t) (timers st) = e # es"
  shows "ws_inv (connectWebSocket (fst (snd e)) thr (clearTimeout t st))"
proof -
  have "e \<in> set (filter (\<lambda>e. fst e = t) (timers st))"
    using assms(2) by (simp add: ws_fields)
  then have e: "e \<in> set (timers st)" "fst e = t"
    by (simp_all add: ws_fields)
  have c: "fst (snd e) < length (closures (clearTimeout t st))"
    using assms(1) e by (auto simp: ws_fields ws_inv_def clearTimeout_def)
  have closed: "\<forall>w < length (sockets (clearTimeout t st)).
      owner (clearTimeout t st) ! w = fst (snd e) \<longrightarrow> sockets (clearTimeout t st) ! w = CLOSED"
    using assms(1) e by (auto simp: ws_fields ws_inv_def clearTimeout_def)
  have "e' = e" if "e' \<in> set (timers st)" "fst (snd e') = fst (snd e)" for e'
    using assms(1) e that by (auto simp: ws_fields ws_inv_def distinct_map inj_on_def)
  then have notimer: "fst (snd e) \<notin> (\<lambda>e. fst (snd e)) ` set (timers (clearTimeout t st))"
    using e by (auto simp: ws_fields clearTimeout_def)
  show ?thesis
    using ws_inv_connect[OF ws_inv_clearTimeout[OF assms(1)] c closed notimer] .
qed

lemma ws_inv_step: "ws_inv st \<Longrightarrow> ws_inv (step st ev)"
proof (cases ev)
  case (Effect i thr)
  then show "ws_inv st \<Longrightarrow> ?thesis" by (simp add: ws_fields ws_inv_effect)
next
  case (Cleanup c)
  then show "ws_inv st \<Longrightarrow> ?thesis"
    by (auto simp: ws_fields cleanup_def ws_inv_clearTimeout split: option.splits)
next
  case (SocketOpen w)
  then show "ws_inv st \<Longrightarrow> ?thesis"
    by (auto simp: ws_fields handleOpen_def ws_inv_send ws_inv_reopen)
next
  case (SocketMessage w m)
  then show "ws_inv st \<Longrightarrow> ?thesis"
    by (auto simp: ws_fields handleMessage_def ws_inv_send)
next
  case (SocketClosing w)
  then show "ws_inv st \<Longrightarrow> ?thesis"
    by (auto simp: ws_fields ws_inv_reopen)
next
  case (SocketClose w code)
  then show "ws_inv st \<Longrightarrow> ?thesis"
    by (auto simp: ws_fields ws_inv_close)
next
  case (TimerFire t thr)
  then show "ws_inv st \<Longrightarrow> ?thesis"
    by (auto simp: ws_fields ws_inv_fire split: list.splits)
qed

lemma ws_inv_initial: "ws_inv initial_ws_state"
  by (simp add: ws_fields ws_inv_def initial_ws_state_def)

subsection \<open>Bootstrap commands\<close>

lemma bootstrap_inv_same:
  assumes "bootstrap_inv st" "sent st' = sent st" "sockets st' = sockets st"
  shows "bootstrap_inv st'"
  using assms by (simp add: ws_fields bootstrap_inv_def bootstraps_def)

lemma bootstrap_inv_new_socket:
  assumes "bootstrap_inv st" "sent st' = sent st" "sockets st' = sockets st @ [CONNECTING]"
  shows "bootstrap_inv st'"
  unfolding bootstrap_inv_def
proof (intro allI)
  fix w
  have eq: "bootstraps st' w = bootstraps st w"
    using assms(2) by (simp add: ws_fields bootstraps_def)
  from assms(1) have b: "bootstraps st w \<le> 1"
    "w < length (sockets st) \<and> sockets st ! w = OPEN \<longrightarrow> bootstraps st w = 1"
    "length (sockets st) \<le> w \<or> sockets st ! w = CONNECTING \<longrightarrow> bootstraps st w = 0"
    by (simp_all add: ws_fields bootstrap_inv_def)
  show "bootstraps st' w \<le> 1
        \<and> (w < length (sockets st') \<and> sockets st' ! w = OPEN \<longrightarrow> bootstraps st' w = 1)
        \<and> (length (sockets st') \<le> w \<or> sockets st' ! w = CONNECTING \<longrightarrow> bootstraps st' w = 0)"
    using b eq assms(3) by (auto simp: ws_fields nth_append)
qed

lemma bootstrap_inv_get_snapshot:
  "bootstrap_inv st \<Longrightarrow> bootstrap_inv (send tgt Get_snapshot st)"
  by (auto simp: ws_fields bootstrap_inv_def bootstraps_def send_def split: option.splits)

lemma bootstrap_inv_drop:
  assumes "bootstrap_inv st" "w < length (sockets st)" "r \<noteq> OPEN" "r \<noteq> CONNECTING"
  shows "bootstrap_inv (st\<lparr>sockets := (sockets st)[w := r]\<rparr>)"
  unfolding bootstrap_inv_def
proof (intro allI)
  fix v
  from assms(1) have b: "bootstraps st v \<le> 1"
    "v < length (sockets st) \<and> sockets st ! v = OPEN \<longrightarrow> bootstraps st v = 1"
    "length (sockets st) \<le> v \<or> sockets st ! v = CONNECTING \<longrightarrow> bootstraps st v = 0"
    by (simp_all add: ws_fields bootstrap_inv_def)
  let ?st = "st\<lparr>sockets := (sockets st)[w := r]\<rparr>"
  have eq: "bootstraps ?st v = bootstraps st v"
    by (simp add: ws_fields bootstraps_def)
  show "bootstraps ?st v \<le> 1
        \<and> (v < length (sockets ?st) \<and> sockets ?st ! v = OPEN \<longrightarrow> bootstraps ?st v = 1)
        \<and> (length (sockets ?st) \<le> v \<or> sockets ?st ! v = CONNECTING \<longrightarrow> bootstraps ?st v = 0)"
    using b eq assms(2-) by (auto simp: ws_fields nth_list_update)
qed

text \<open>The open event: the bootstrap goes out on the socket that opened.\<close>

lemma open_sends_bootstrap:
  assumes "ws_inv st" "w < length (sockets st)" "sockets st ! w = CONNECTING"
  shows "step st (SocketOpen w)
         = st\<lparr>sockets := (sockets st)[w := OPEN],
              sent := sent st @ [(w, Bootstrap ''default'' 10000)]\<rparr>"
proof -
  have "ws (closures st ! (owner st ! w)) = Some w"
    using assms by (simp add: ws_fields ws_inv_def)
  with assms(2,3) show ?thesis
    by (simp add: ws_fields handleOpen_def send_def)
qed

lemma bootstrap_inv_open:
  assumes "bootstrap_inv st" "ws_inv st" "w < length (sockets st)" "sockets st ! w = CONNECTING"
  shows "bootstrap_inv (step st (SocketOpen w))"
  unfolding bootstrap_inv_def open_sends_bootstrap[OF assms(2-4)]
proof (intro allI)
  fix v
  from assms(1) have b: "bootstraps st v \<le> 1"
    "v < length (sockets st) \<and> sockets st ! v = OPEN \<longrightarrow> bootstraps st v = 1"
    "length (sockets st) \<le> v \<or> sockets st ! v = CONNECTING \<longrightarrow> bootstraps st v = 0"
    by (simp_all add: ws_fields bootstrap_inv_def)
  let ?st = "st\<lparr>sockets := (sockets st)[w := OPEN],
              sent := sent st @ [(w, Bootstrap ''default'' 10000)]\<rparr>"
  have eq: "bootstraps ?st v = (if v = w then Suc (bootstraps st v) else bootstraps st v)"
    by (simp add: ws_fields bootstraps_def)
  have w0: "bootstraps st w = 0"
    using assms(1,4) by (simp add: ws_fields bootstrap_inv_def)
  show "bootstraps ?st v \<le> 1
        \<and> (v < length (sockets ?st) \<and> sockets ?st ! v = OPEN \<longrightarrow> bootstraps ?st v = 1)
        \<and> (length (sockets ?st) \<le> v \<or> sockets ?st ! v = CONNECTING \<longrightarrow> bootstraps ?st v = 0)"
    using b eq w0 assms(3) by (auto simp: ws_fields nth_list_update)
qed

lemma bootstrap_inv_step:
  assumes "bootstrap_inv st" "ws_inv st"
  shows "bootstrap_inv (step st ev)"
proof (cases ev)
  case (Effect i thr)
  show ?thesis
  proof (cases "created st \<and> \<not> thr")
    case True
    with Effect show ?thesis
      using bootstrap_inv_new_socket[OF assms(1), of "effect_run i thr st"]
      by (simp add: ws_fields sockets_effect)
  next
    case False
    with Effect show ?thesis
      using bootstrap_inv_same[OF assms(1), of "effect_run i thr st"]
      by (simp add: ws_fields sockets_effect)
  qed
next
  case (Cleanup c)
  with assms(1) show ?thesis
    by (auto simp: ws_fields intro: bootstrap_inv_same)
next
  case (SocketOpen w)
  with assms show ?thesis
    using bootstrap_inv_open[of st w] by (cases "w < length (sockets st) \<and> sockets st ! w = CONNECTING") auto
next
  case (SocketMessage w m)
  with assms(1) show ?thesis
    by (auto simp: ws_fields handleMessage_def bootstrap_inv_get_snapshot)
next
  case (SocketClosing w)
  with assms(1) show ?thesis
    by (auto simp: ws_fields bootstrap_inv_drop)
next
  case (SocketClose w code)
  show ?thesis
  proof (cases "w < length (sockets st) \<and> sockets st ! w \<noteq> CLOSED")
    case True
    then have "bootstrap_inv (st\<lparr>sockets := (sockets st)[w := CLOSED]\<rparr>)"
      using assms(1) by (simp add: ws_fields bootstrap_inv_drop)
    then have "bootstrap_inv (handleClose (owner st ! w) code (st\<lparr>sockets := (sockets st)[w := CLOSED]\<rparr>))"
      by (rule bootstrap_inv_same) (simp_all add: ws_fields)
    with True SocketClose show ?thesis by (simp add: ws_fields)
  next
    case False
    with assms(1) SocketClose show ?thesis by (auto simp: ws_fields)
  qed
next
  case (TimerFire t thr)
  show ?thesis
  proof (cases "filter (\<lambda>e. fst e = t) (timers st)")
    case Nil
    with assms(1) TimerFire show ?thesis by (simp add: ws_fields)
  next
    case (Cons e es)
    have "bootstrap_inv (connectWebSocket (fst (snd e)) thr (clearTimeout t st))"
    proof (cases thr)
      case True
      then show ?thesis
        using bootstrap_inv_same[OF assms(1), of "connectWebSocket (fst (snd e)) thr (clearTimeout t st)"]
        by (simp add: ws_fields)
    next
      case False
      then show ?thesis
        using bootstrap_inv_new_socket[OF assms(1), of "connectWebSocket (fst (snd e)) thr (clearTimeout t st)"]
        by (simp add: ws_fields)
    qed
    with TimerFire Cons show ?thesis by (simp add: ws_fields)
  qed
qed

lemma reachable_invs:
  "ws_inv st \<and> bootstrap_inv st \<Longrightarrow> ws_inv (run st evs) \<and> bootstrap_inv (run st evs)"
  unfolding run_def
  by (induction evs arbitrary: st) (auto simp: ws_fields ws_inv_step bootstrap_inv_step)

lemma bootstrap_inv_initial: "bootstrap_inv initial_ws_state"
  by (simp add: ws_fields bootstrap_inv_def bootstraps_def initial_ws_state_def)

lemma handleClose_timers:
  "timers (handleClose c code st) =
     (if code \<noteq> 1000 \<and> code \<noteq> 1001 then timers st @ [(next_timer st, c, 3000)] else timers st)"
  by (simp add: ws_fields handleClose_def setTimeout_connect_def Let_def)

text \<open>
  Claim C7.  \<open>handleClose\<close> schedules a reconnection (a timer that calls
  \<open>connectWebSocket\<close> after 3000 ms) exactly when the close code is neither
  1000 nor 1001, in any state and so at every close event of a socket.  In every
  state the events can lead to, the open event of a connecting socket sends one
  message on that socket, the bootstrap command, and changes nothing else but
  the socket's state; no socket ever carries more than one bootstrap command, and
  an open socket carries exactly one.
\<close>

theorem reconnect_and_bootstrap:
  assumes "st = run initial_ws_state evs"
  shows "timers (handleClose c code st0) =
       (if code \<noteq> 1000 \<and> code \<noteq> 1001 then timers st0 @ [(next_timer st0, c, 3000)]
        else timers st0)
   \<and> (w < length (sockets st) \<and> sockets st ! w \<noteq> CLOSED \<longrightarrow>
        timers (step st (SocketClose w code)) =
          (if code \<noteq> 1000 \<and> code \<noteq> 1001
           then timers st @ [(next_timer st, owner st ! w, 3000)] else timers st))
   \<and> (w < length (sockets st) \<and> sockets st ! w = CONNECTING \<longrightarrow>
        step st (SocketOpen w)
          = st\<lparr>sockets := (sockets st)[w := OPEN],
               sent := sent st @ [(w, Bootstrap ''default'' 10000)]\<rparr>)
   \<and> bootstraps st w \<le> 1
   \<and> (w < length (sockets st) \<and> sockets st ! w = OPEN \<longrightarrow> bootstraps st w = 1)"
proof -
  have invs: "ws_inv st" "bootstrap_inv st"
    using reachable_invs[of initial_ws_state evs] ws_inv_initial bootstrap_inv_initial assms
    by (simp_all add: ws_fields)
  have close_event: "timers (step st (SocketClose w code)) =
          (if code \<noteq> 1000 \<and> code \<noteq> 1001
           then timers st @ [(next_timer st, owner st ! w, 3000)] else timers st)"
    if "w < length (sockets st) \<and> sockets st ! w \<noteq> CLOSED"
    using that by (simp add: ws_fields handleClose_timers)
  have open_event: "step st (SocketOpen w)
          = st\<lparr>sockets := (sockets st)[w := OPEN],
               sent := sent st @ [(w, Bootstrap ''default'' 10000)]\<rparr>"
    if "w < length (sockets st) \<and> sockets st ! w = CONNECTING"
    using that open_sends_bootstrap[OF invs(1)] by (simp add: ws_fields)
  have count: "bootstraps st w \<le> 1"
    "w < length (sockets st) \<and> sockets st ! w = OPEN \<longrightarrow> bootstraps st w = 1"
    using invs(2) by (simp_all add: ws_fields bootstrap_inv_def)
  from close_event open_event count handleClose_timers[of c code st0]
  show ?thesis by blast
qed

theorem reconnect_and_bootstrap_witness:
  "sockets (run initial_ws_state [Effect 0 False]) ! 0 = CONNECTING
   \<and> sent (step (run initial_ws_state [Effect 0 False]) (SocketOpen 0))
       = [(0, Bootstrap ''default'' 10000)]
   \<and> timers (step (run initial_ws_state [Effect 0 False]) (SocketClose 0 1006))
       = [(0, 0, 3000)]
   \<and> sockets (run initial_ws_state [Effect 0 False, SocketOpen 0]) ! 0 = OPEN
   \<and> bootstraps (run initial_ws_state [Effect 0 False, SocketOpen 0]) 0 = 1
   \<and> timers (step (run initial_ws_state [Effect 0 False, SocketOpen 0]) (SocketClose 0 1000))
       = []"
  using reconnect_and_bootstrap[of "run initial_ws_state [Effect 0 False]" "[Effect 0 False]"
      0 1006 initial_ws_state 0]
    reconnect_and_bootstrap[of "run initial_ws_state [Effect 0 False, SocketOpen 0]"
      "[Effect 0 False, SocketOpen 0]" 0 1000 initial_ws_state 0]
  by (simp add: ws_fields run_def initial_ws_state_def effect_run_def created_def connectWebSocket_def
      handleOpen_def send_def Let_def)

subsection \<open>One connection at a time\<close>

lemma count_update_same:
  "w < length xs \<Longrightarrow> xs ! w \<noteq> CLOSED \<Longrightarrow> r \<noteq> CLOSED \<Longrightarrow>
     length (filter (\<lambda>r. r \<noteq> CLOSED) (xs[w := r])) = length (filter (\<lambda>r. r \<noteq> CLOSED) xs)"
proof (induction xs arbitrary: w)
  case Nil
  then show ?case by (simp add: ws_fields)
next
  case (Cons x xs)
  then show ?case by (cases w) auto
qed

lemma count_update_closed:
  "w < length xs \<Longrightarrow> xs ! w \<noteq> CLOSED \<Longrightarrow>
     Suc (length (filter (\<lambda>r. r \<noteq> CLOSED) (xs[w := CLOSED]))) = length (filter (\<lambda>r. r \<noteq> CLOSED) xs)"
proof (induction xs arbitrary: w)
  case Nil
  then show ?case by (simp add: ws_fields)
next
  case (Cons x xs)
  then show ?case by (cases w) auto
qed

lemma filter_removes:
  "filter (\<lambda>e. fst e = t) ts \<noteq> [] \<Longrightarrow> length (filter (\<lambda>e. fst e \<noteq> t) ts) < length ts"
  using sum_length_filter_compl[of "\<lambda>e. fst e = t" ts]
  by (cases "filter (\<lambda>e. fst e = t) ts") auto

lemma clearTimeout_one_at_most:
  "one_at_most st \<Longrightarrow> one_at_most (clearTimeout t st)"
  unfolding one_at_most_def clearTimeout_def live_count_def
  using length_filter_le[of "\<lambda>e. fst e \<noteq> t" "timers st"]
  by (simp del: length_filter_le)

lemma handleClose_count:
  "sockets (handleClose c code st) = sockets st"
  "length (timers (handleClose c code st)) \<le> Suc (length (timers st))"
  by (simp_all add: ws_fields handleClose_def setTimeout_connect_def Let_def)

lemma connectWebSocket_count:
  "live_count (connectWebSocket c thr st) + length (timers (connectWebSocket c thr st))
     = Suc (live_count st + length (timers st))"
  by (simp add: ws_fields connectWebSocket_def setTimeout_connect_def live_count_def Let_def)

lemma step_one_at_most:
  assumes "one_at_most st" "\<not> is_Effect ev"
  shows "one_at_most (step st ev)"
proof (cases ev)
  case (Effect i thr)
  with assms show ?thesis by (simp add: ws_fields)
next
  case (Cleanup c)
  with assms show ?thesis
    by (auto simp: ws_fields cleanup_def clearTimeout_one_at_most split: option.splits)
next
  case (SocketOpen w)
  with assms show ?thesis
    by (auto simp: ws_fields one_at_most_def handleOpen_def live_count_def count_update_same)
next
  case (SocketMessage w m)
  with assms show ?thesis
    by (auto simp: ws_fields one_at_most_def handleMessage_def live_count_def)
next
  case (SocketClosing w)
  with assms show ?thesis
    by (auto simp: ws_fields one_at_most_def live_count_def count_update_same)
next
  case (SocketClose w code)
  show ?thesis
  proof (cases "w < length (sockets st) \<and> sockets st ! w \<noteq> CLOSED")
    case True
    let ?st = "st\<lparr>sockets := (sockets st)[w := CLOSED]\<rparr>"
    have "Suc (live_count ?st) = live_count st"
      using True by (simp add: ws_fields live_count_def count_update_closed)
    moreover have "live_count (handleClose (owner st ! w) code ?st) = live_count ?st"
      by (simp add: ws_fields live_count_def handleClose_count)
    moreover have "length (timers (handleClose (owner st ! w) code ?st))
                     \<le> Suc (length (timers st))"
      using handleClose_count(2)[of "owner st ! w" code ?st] by (simp add: ws_fields)
    ultimately have "one_at_most (handleClose (owner st ! w) code ?st)"
      using assms(1) unfolding one_at_most_def by linarith
    with True SocketClose show ?thesis by (simp add: ws_fields)
  next
    case False
    with assms SocketClose show ?thesis by (auto simp: ws_fields)
  qed
next
  case (TimerFire t thr)
  show ?thesis
  proof (cases "filter (\<lambda>e. fst e = t) (timers st)")
    case Nil
    with assms TimerFire show ?thesis by (simp add: ws_fields)
  next
    case (Cons e es)
    then have "length (timers (clearTimeout t st)) < length (timers st)"
      using filter_removes[of t "timers st"] by (simp add: ws_fields clearTimeout_def)
    moreover have "live_count (clearTimeout t st) = live_count st"
      by (simp add: ws_fields clearTimeout_def live_count_def)
    ultimately have "one_at_most (connectWebSocket (fst (snd e)) thr (clearTimeout t st))"
      using assms(1) connectWebSocket_count[of "fst (snd e)" thr "clearTimeout t st"]
      unfolding one_at_most_def by linarith
    with TimerFire Cons show ?thesis by (simp add: ws_fields)
  qed
qed

lemma run_one_at_most:
  "one_at_most st \<Longrightarrow> \<not> list_ex is_Effect evs \<Longrightarrow> one_at_most (run st evs)"
  unfolding run_def
  by (induction evs arbitrary: st) (auto simp: ws_fields step_one_at_most)

lemma startup_one_at_most:
  "one_at_most (run initial_ws_state [Effect i t1])"
  "one_at_most (run initial_ws_state [Effect i t1, Cleanup 0, Effect i t2])"
  by (cases t1; cases t2; simp add: run_def one_at_most_def initial_ws_state_def effect_run_def created_def
      connectWebSocket_def setTimeout_connect_def cleanup_def clearTimeout_def live_count_def Let_def)+


lemma effect_run_constructs:
  "length (sockets (effect_run i thr st))
     = length (sockets st) + (if created st \<and> \<not> thr then 1 else 0)"
  by (simp add: sockets_effect)

lemma effect_run_reuses:
  "\<not> created st \<Longrightarrow>
     sockets (effect_run i thr st) = sockets st
     \<and> WS_SINGLETON (effect_run i thr st) = WS_SINGLETON st
     \<and> timers (effect_run i thr st) = timers st
     \<and> wsRef (effect_run i thr st) i = WS_SINGLETON st"
  by (simp add: effect_run_def Let_def)

lemma handleClose_resets: "WS_SINGLETON (handleClose c code st) = None"
  by (simp add: handleClose_def setTimeout_connect_def Let_def)

lemma double_initialization:
  "sockets (run initial_ws_state [Effect i False, Cleanup 0, Effect i False]) = [CONNECTING]"
  by (simp add: run_def initial_ws_state_def effect_run_def created_def connectWebSocket_def
      cleanup_def Let_def)

lemma run_append: "run st (xs @ ys) = run (run st xs) ys"
  by (simp add: run_def)

text \<open>The singleton always names a socket that exists.\<close>

lemma singleton_known_step: "singleton_known st \<Longrightarrow> singleton_known (step st ev)"
proof (cases ev)
  case (Effect i thr)
  then show "singleton_known st \<Longrightarrow> ?thesis"
    by (auto simp: singleton_known_def effect_run_def connectWebSocket_def
        setTimeout_connect_def Let_def split: option.splits)
next
  case (Cleanup c)
  then show "singleton_known st \<Longrightarrow> ?thesis"
    by (auto simp: singleton_known_def cleanup_def clearTimeout_def split: option.splits)
next
  case (SocketOpen w)
  then show "singleton_known st \<Longrightarrow> ?thesis"
    by (auto simp: singleton_known_def handleOpen_def send_fields split: option.splits)
next
  case (SocketMessage w m)
  then show "singleton_known st \<Longrightarrow> ?thesis"
    by (auto simp: singleton_known_def handleMessage_def send_fields split: option.splits)
next
  case (SocketClosing w)
  then show "singleton_known st \<Longrightarrow> ?thesis"
    by (auto simp: singleton_known_def split: option.splits)
next
  case (SocketClose w code)
  then show "singleton_known st \<Longrightarrow> ?thesis"
    by (auto simp: singleton_known_def handleClose_resets)
next
  case (TimerFire t thr)
  then show "singleton_known st \<Longrightarrow> ?thesis"
    by (auto simp: singleton_known_def connectWebSocket_def setTimeout_connect_def
        clearTimeout_def Let_def split: option.splits list.splits)
qed

lemma singleton_known_run: "singleton_known st \<Longrightarrow> singleton_known (run st evs)"
  unfolding run_def by (induction evs arbitrary: st) (auto simp: singleton_known_step)

lemma singleton_known_initial: "singleton_known initial_ws_state"
  by (simp add: singleton_known_def initial_ws_state_def)

text \<open>With no socket open, the guard of the effect holds.\<close>

lemma all_closed:
  "length (filter (\<lambda>r. r \<noteq> CLOSED) xs) = 0 \<Longrightarrow> w < length xs \<Longrightarrow> xs ! w = CLOSED"
  by (induction xs arbitrary: w) (auto simp: nth_Cons split: nat.splits if_splits)

lemma created_when_idle:
  assumes "singleton_known st" "live_count st = 0"
  shows "created st"
proof (cases "WS_SINGLETON st")
  case None
  then show ?thesis by (simp add: created_def)
next
  case (Some w)
  with assms(1) have "w < length (sockets st)"
    by (simp add: singleton_known_def)
  with assms(2) have "sockets st ! w = CLOSED"
    by (simp add: live_count_def all_closed)
  with Some show ?thesis by (simp add: created_def)
qed

text \<open>
  In a state with at most one open socket or pending timer, whatever constructs
  a socket finds the guard of the effect true, the reconnect timer too.
\<close>

lemma constructs_only_when_created:
  assumes "one_at_most st" "singleton_known st"
    and "length (sockets (step st ev)) \<noteq> length (sockets st)"
  shows "created st \<and> sockets (step st ev) = sockets st @ [CONNECTING]"
proof (cases ev)
  case (Effect i thr)
  with assms(3) show ?thesis
    by (auto simp: sockets_effect split: if_splits)
next
  case (Cleanup c)
  with assms(3) show ?thesis by (simp add: sockets_fields split: if_splits)
next
  case (SocketOpen w)
  with assms(3) show ?thesis
    by (simp add: handleOpen_def send_fields split: if_splits)
next
  case (SocketMessage w m)
  with assms(3) show ?thesis
    by (simp add: handleMessage_def send_fields split: if_splits)
next
  case (SocketClosing w)
  with assms(3) show ?thesis by (simp split: if_splits)
next
  case (SocketClose w code)
  with assms(3) show ?thesis by (simp add: sockets_fields split: if_splits)
next
  case (TimerFire t thr)
  show ?thesis
  proof (cases "filter (\<lambda>e. fst e = t) (timers st)")
    case Nil
    with assms(3) TimerFire show ?thesis by simp
  next
    case (Cons e es)
    then have "timers st \<noteq> []" by auto
    with assms(1) have "live_count st = 0"
      by (cases "timers st") (simp_all add: one_at_most_def)
    then have "created st"
      using assms(2) by (simp add: created_when_idle)
    moreover have "sockets (step st ev) = sockets st @ [CONNECTING]"
      using assms(3) TimerFire Cons by (simp add: sockets_fields split: if_splits)
    ultimately show ?thesis by simp
  qed
qed

lemma close_event_resets:
  assumes "w < length (sockets st) \<and> sockets st ! w \<noteq> CLOSED"
  shows "WS_SINGLETON (step st (SocketClose w code)) = None
     \<and> sockets (step st (SocketClose w code)) = (sockets st)[w := CLOSED]"
  using assms by (simp add: handleClose_resets sockets_fields)

lemma timer_constructs:
  assumes "filter (\<lambda>e. fst e = t) (timers st) \<noteq> []"
  shows "sockets (step st (TimerFire t False)) = sockets st @ [CONNECTING]"
  using assms by (simp add: sockets_fields split: list.splits)

lemma startup_reachable:
  assumes "startup = [Effect i t1] \<or> startup = [Effect i t1, Cleanup 0, Effect i t2]"
    and "\<not> list_ex is_Effect evs"
  shows "one_at_most (run initial_ws_state (startup @ evs))"
    and "singleton_known (run initial_ws_state (startup @ evs))"
proof -
  have "one_at_most (run initial_ws_state startup)"
    using assms(1) startup_one_at_most by blast
  then show "one_at_most (run initial_ws_state (startup @ evs))"
    using assms(2) by (simp add: run_append run_one_at_most)
  show "singleton_known (run initial_ws_state (startup @ evs))"
    by (simp add: singleton_known_run singleton_known_initial)
qed

text \<open>
  Claim C8.  The page renders one \<open>App\<close>, so the setup effect runs at start-up
  only: once, or twice with the cleanup between the runs (the double
  initialization).  In every state such a lifecycle reaches: at most one socket
  is not closed; any event that constructs a socket, a run of the effect or
  the reconnect timer, finds the singleton null or its socket closing or
  closed, and constructs one connecting socket; the close event of a socket
  resets the singleton to null; a pending reconnect timer that fires constructs a
  socket unless the constructor throws.  A run of the effect constructs a socket exactly
  when that guard holds and the constructor does not throw; when the guard fails
  it leaves sockets, singleton and timers as they are and points \<open>wsRef\<close> at the
  singleton, so the double initialization yields one socket.
\<close>

theorem single_connection_at_startup:
  assumes "startup = [Effect i t1] \<or> startup = [Effect i t1, Cleanup 0, Effect i t2]"
    and "\<not> list_ex is_Effect evs"
    and "st = run initial_ws_state (startup @ evs)"
  shows "live_count st \<le> 1
   \<and> (length (sockets (step st ev)) \<noteq> length (sockets st) \<longrightarrow>
        created st \<and> sockets (step st ev) = sockets st @ [CONNECTING])
   \<and> (w < length (sockets st) \<and> sockets st ! w \<noteq> CLOSED \<longrightarrow>
        WS_SINGLETON (step st (SocketClose w code)) = None
        \<and> sockets (step st (SocketClose w code)) = (sockets st)[w := CLOSED])
   \<and> WS_SINGLETON (handleClose c code st) = None
   \<and> (filter (\<lambda>e. fst e = t) (timers st) \<noteq> [] \<longrightarrow>
        sockets (step st (TimerFire t False)) = sockets st @ [CONNECTING])
   \<and> length (sockets (effect_run j thr st))
       = length (sockets st) + (if created st \<and> \<not> thr then 1 else 0)
   \<and> (\<not> created st \<longrightarrow>
        sockets (effect_run j thr st) = sockets st
        \<and> WS_SINGLETON (effect_run j thr st) = WS_SINGLETON st
        \<and> timers (effect_run j thr st) = timers st
        \<and> wsRef (effect_run j thr st) j = WS_SINGLETON st)
   \<and> sockets (run initial_ws_state [Effect i False, Cleanup 0, Effect i False]) = [CONNECTING]"
proof -
  have inv: "one_at_most st" "singleton_known st"
    using startup_reachable[OF assms(1,2)] assms(3) by simp_all
  have one: "live_count st \<le> 1"
    using inv(1) by (simp add: one_at_most_def)
  from one constructs_only_when_created[OF inv, of ev] close_event_resets[of w st code]
    handleClose_resets[of c code st] timer_constructs[of t st]
    effect_run_constructs[of j thr st]
    effect_run_reuses[of st j thr] double_initialization[of i]
  show ?thesis by blast
qed

theorem single_connection_at_startup_witness:
  "\<not> list_ex is_Effect [SocketOpen 0, SocketClose 0 1006]
   \<and> sockets (run initial_ws_state ([Effect 0 False] @ [SocketOpen 0, SocketClose 0 1006]))
       = [CLOSED]
   \<and> created (run initial_ws_state ([Effect 0 False] @ [SocketOpen 0, SocketClose 0 1006]))
   \<and> sockets (step (run initial_ws_state ([Effect 0 False] @ [SocketOpen 0, SocketClose 0 1006]))
                (TimerFire 0 False)) = [CLOSED, CONNECTING]
   \<and> sockets (run initial_ws_state ([Effect 0 False, Cleanup 0, Effect 0 False] @ [SocketOpen 0]))
       = [OPEN]
   \<and> \<not> created (run initial_ws_state ([Effect 0 False, Cleanup 0, Effect 0 False]
                    @ [SocketOpen 0]))
   \<and> live_count (run initial_ws_state ([Effect 0 False, Cleanup 0, Effect 0 False]
                    @ [SocketOpen 0])) \<le> 1
   \<and> WS_SINGLETON (step (run initial_ws_state ([Effect 0 False, Cleanup 0, Effect 0 False]
                    @ [SocketOpen 0])) (SocketClose 0 1006)) = None"
proof -
  have a: "\<not> list_ex is_Effect [SocketOpen 0, SocketClose 0 1006]"
       "\<not> list_ex is_Effect [SocketOpen 0]"
    by simp_all
  have s1: "sockets (run initial_ws_state ([Effect 0 False] @ [SocketOpen 0, SocketClose 0 1006]))
       = [CLOSED]"
    by (simp add: run_def initial_ws_state_def effect_run_def created_def connectWebSocket_def
        handleOpen_def handleClose_def setTimeout_connect_def send_def Let_def)
  have s2: "sockets (step (run initial_ws_state ([Effect 0 False]
                @ [SocketOpen 0, SocketClose 0 1006])) (TimerFire 0 False))
            = [CLOSED, CONNECTING]"
    by (simp add: run_def initial_ws_state_def effect_run_def created_def connectWebSocket_def
        handleOpen_def handleClose_def setTimeout_connect_def clearTimeout_def send_def Let_def)
  have s3: "sockets (run initial_ws_state ([Effect 0 False, Cleanup 0, Effect 0 False]
                @ [SocketOpen 0])) = [OPEN]"
    by (simp add: run_def initial_ws_state_def effect_run_def created_def connectWebSocket_def
        cleanup_def handleOpen_def send_def Let_def)
  have s4: "\<not> created (run initial_ws_state ([Effect 0 False, Cleanup 0, Effect 0 False]
                @ [SocketOpen 0]))"
    by (simp add: run_def initial_ws_state_def effect_run_def created_def connectWebSocket_def
        cleanup_def handleOpen_def send_def Let_def)
  show ?thesis
    using single_connection_at_startup[where startup = "[Effect 0 False]" and i = 0
        and ?t1.0 = False and ?t2.0 = False and evs = "[SocketOpen 0, SocketClose 0 1006]"
        and ev = "TimerFire 0 False" and w = 0 and code = 1006 and c = 0 and j = 0
        and thr = False and t = 0, OF disjI1[OF refl] a(1) refl]
      single_connection_at_startup[where startup = "[Effect 0 False, Cleanup 0, Effect 0 False]"
        and i = 0 and ?t1.0 = False and ?t2.0 = False and evs = "[SocketOpen 0]"
        and ev = "TimerFire 0 False" and w = 0 and code = 1006 and c = 0 and j = 0
        and thr = False and t = 0, OF disjI2[OF refl] a(2) refl]
      s1 s2 s3 s4
    by simp
qed

end
